theory Spec2Isabelle
  imports Main "HOL-Library.AList"
begin

section \<open>Loosely typed payloads\<close>

text \<open>
  The record store hands out AppProjects as \<^verbatim>\<open>unstructured.Unstructured\<close>: a
  \<^verbatim>\<open>map[string]interface{}\<close> whose values are the Go images of JSON values. An object
  is an association list read with \<open>map_of\<close> (the first binding of a key counts).
\<close>

datatype json =
    JNull
  | JBool bool
  | JNumber int
  | JString string
  | JArray "json list"
  | JObject "(string \<times> json) list"

type_synonym object = "(string \<times> json) list"

text \<open>
  A Go slice is either nil or a (possibly empty) sequence: \<^verbatim>\<open>var xs []T\<close> is nil,
  \<^verbatim>\<open>[]T{}\<close> is empty and not nil, \<^verbatim>\<open>append\<close> never returns nil here, and
  \<^verbatim>\<open>len\<close> and \<^verbatim>\<open>range\<close> treat nil as empty.
\<close>

datatype 'a slice = NilSlice | Slice "'a list"

fun elems :: "'a slice \<Rightarrow> 'a list" where
  "elems NilSlice = []"
| "elems (Slice xs) = xs"

definition append_slice :: "'a slice \<Rightarrow> 'a \<Rightarrow> 'a slice" where
  "append_slice s x = Slice (elems s @ [x])"

definition len :: "'a slice \<Rightarrow> nat" where
  "len s = length (elems s)"

section \<open>Errors\<close>

text \<open>
  Go's \<^verbatim>\<open>error\<close> values as they reach this program: a status error of the API server
  with its reason, the context's own errors, any other transport failure, the error of
  an \<^verbatim>\<open>unstructured.Nested*\<close> accessor (with the field path), and
  \<^verbatim>\<open>fmt.Errorf("...: %w", err)\<close> wrapping another error.
\<close>

datatype status_reason =
    StatusReasonNotFound
  | StatusReasonForbidden
  | StatusReasonConflict
  | StatusReasonBadRequest
  | StatusReasonUnsupportedMediaType
  | StatusReasonInternalError

datatype error =
    StatusError status_reason
  | ContextCanceled
  | ContextDeadlineExceeded
  | TransportError string
  | AccessorError "string list"
  | Errorf string error

text \<open>\<^verbatim>\<open>errors.IsNotFound\<close> and its siblings look through wrapped errors for a status.\<close>

fun ReasonForError :: "error \<Rightarrow> status_reason option" where
  "ReasonForError (StatusError r) = Some r"
| "ReasonForError (Errorf msg e) = ReasonForError e"
| "ReasonForError ContextCanceled = None"
| "ReasonForError ContextDeadlineExceeded = None"
| "ReasonForError (TransportError msg) = None"
| "ReasonForError (AccessorError path) = None"

definition IsNotFound :: "error \<Rightarrow> bool" where
  "IsNotFound err = (ReasonForError err = Some StatusReasonNotFound)"

definition IsForbidden :: "error \<Rightarrow> bool" where
  "IsForbidden err = (ReasonForError err = Some StatusReasonForbidden)"

definition IsConflict :: "error \<Rightarrow> bool" where
  "IsConflict err = (ReasonForError err = Some StatusReasonConflict)"

section \<open>The accessors of \<^verbatim>\<open>unstructured\<close>\<close>

text \<open>
  The accessors return \<^verbatim>\<open>(value, found, err)\<close>, in one of three shapes: found with
  a value, not found without an error, or an error. A field missing on the way is not
  found; a value of the wrong type, on the way or at the end, is an error. A JSON
  \<^verbatim>\<open>null\<close> on the way is not found, and at the end it has the wrong type.
\<close>

datatype 'a accessor = Found 'a | Missing | AccessorErr error

fun NestedFieldNoCopy :: "json \<Rightarrow> string list \<Rightarrow> string list \<Rightarrow> json accessor" where
  "NestedFieldNoCopy val seen [] = Found val"
| "NestedFieldNoCopy JNull seen (field # fields) = Missing"
| "NestedFieldNoCopy (JObject m) seen (field # fields) =
     (case map_of m field of
        None \<Rightarrow> Missing
      | Some v \<Rightarrow> NestedFieldNoCopy v (seen @ [field]) fields)"
| "NestedFieldNoCopy val seen (field # fields) = AccessorErr (AccessorError (seen @ [field]))"

definition NestedMap :: "object \<Rightarrow> string list \<Rightarrow> object accessor" where
  "NestedMap obj fields =
     (case NestedFieldNoCopy (JObject obj) [] fields of
        Found (JObject m) \<Rightarrow> Found m
      | Found val \<Rightarrow> AccessorErr (AccessorError fields)
      | Missing \<Rightarrow> Missing
      | AccessorErr err \<Rightarrow> AccessorErr err)"

definition NestedSlice :: "object \<Rightarrow> string list \<Rightarrow> json list accessor" where
  "NestedSlice obj fields =
     (case NestedFieldNoCopy (JObject obj) [] fields of
        Found (JArray xs) \<Rightarrow> Found xs
      | Found val \<Rightarrow> AccessorErr (AccessorError fields)
      | Missing \<Rightarrow> Missing
      | AccessorErr err \<Rightarrow> AccessorErr err)"

definition NestedString :: "object \<Rightarrow> string list \<Rightarrow> string accessor" where
  "NestedString obj fields =
     (case NestedFieldNoCopy (JObject obj) [] fields of
        Found (JString s) \<Rightarrow> Found s
      | Found val \<Rightarrow> AccessorErr (AccessorError fields)
      | Missing \<Rightarrow> Missing
      | AccessorErr err \<Rightarrow> AccessorErr err)"

text \<open>\<^verbatim>\<open>GetName\<close> and \<^verbatim>\<open>GetResourceVersion\<close> give the empty string unless the field
  is there and a string.\<close>

definition getNestedString :: "object \<Rightarrow> string list \<Rightarrow> string" where
  "getNestedString obj fields = (case NestedString obj fields of Found s \<Rightarrow> s | _ \<Rightarrow> [])"

definition GetName :: "object \<Rightarrow> string" where
  "GetName obj = getNestedString obj [''metadata'', ''name'']"

definition GetResourceVersion :: "object \<Rightarrow> string" where
  "GetResourceVersion obj = getNestedString obj [''metadata'', ''resourceVersion'']"

section \<open>Destinations\<close>

record Destination =
  Server :: string
  Namespace :: string
  Name :: string

definition destinationsEqual :: "Destination \<Rightarrow> Destination \<Rightarrow> bool" where
  "destinationsEqual a b =
     (Server a = Server b \<and> Namespace a = Namespace b \<and> Name a = Name b)"

text \<open>The body of the loop of \<^verbatim>\<open>extractDestinations\<close> for an element that is a map:
  each field is taken when it is a string and left at the zero value otherwise.\<close>

definition destinationOfMap :: "object \<Rightarrow> Destination" where
  "destinationOfMap destMap =
     (let dest = \<lparr>Server = [], Namespace = [], Name = []\<rparr>;
          dest = (case map_of destMap ''server'' of
                    Some (JString server) \<Rightarrow> dest\<lparr>Server := server\<rparr> | _ \<Rightarrow> dest);
          dest = (case map_of destMap ''namespace'' of
                    Some (JString namespace) \<Rightarrow> dest\<lparr>Namespace := namespace\<rparr> | _ \<Rightarrow> dest);
          dest = (case map_of destMap ''name'' of
                    Some (JString name) \<Rightarrow> dest\<lparr>Name := name\<rparr> | _ \<Rightarrow> dest)
      in dest)"

fun extractLoop :: "json list \<Rightarrow> Destination slice \<Rightarrow> Destination slice" where
  "extractLoop [] destinations = destinations"
| "extractLoop (JObject destMap # rest) destinations =
     extractLoop rest (append_slice destinations (destinationOfMap destMap))"
| "extractLoop (d # rest) destinations = extractLoop rest destinations"

definition extractDestinations :: "object \<Rightarrow> error + Destination slice" where
  "extractDestinations project =
     (case NestedMap project [''spec''] of
        AccessorErr err \<Rightarrow> Inl (Errorf ''failed to get spec'' err)
      | Missing \<Rightarrow> Inr (Slice [])
      | Found spec \<Rightarrow>
          (case NestedSlice spec [''destinations''] of
             AccessorErr err \<Rightarrow> Inl (Errorf ''failed to get destinations'' err)
           | Missing \<Rightarrow> Inr (Slice [])
           | Found destinationsRaw \<Rightarrow> Inr (extractLoop destinationsRaw NilSlice)))"

section \<open>The record store\<close>

text \<open>
  The dynamic client and the API server behind it are the program's environment. The
  model keeps what the program can observe of them: the AppProjects of the namespace by
  name, the failures the server answers a request with (access control, transport), and
  the Patch requests the program has sent. A request with a context that is already
  done fails with the context's error and changes nothing in the store.
\<close>

datatype Context = CtxActive | CtxCanceled | CtxDeadlineExceeded

fun ctxErr :: "Context \<Rightarrow> error option" where
  "ctxErr CtxActive = None"
| "ctxErr CtxCanceled = Some ContextCanceled"
| "ctxErr CtxDeadlineExceeded = Some ContextDeadlineExceeded"

datatype patch_type = JSONPatchType | MergePatchType | StrategicMergePatchType

record patch_call =
  patchName :: string
  patchType :: patch_type
  patchData :: json

record cluster =
  objects :: "(string \<times> object) list"
  getErr :: "string \<Rightarrow> error option"
  listErr :: "error option"
  patchErr :: "string \<Rightarrow> error option"
  patches :: "patch_call list"

text \<open>
  A JSON merge patch (RFC 7386): an object in the patch is merged into the target field
  by field, \<^verbatim>\<open>null\<close> deletes a field, and every other value, an array included,
  replaces the target's value whole.
\<close>

fun mergePatch :: "json \<Rightarrow> json \<Rightarrow> json"
  and mergeFields :: "object \<Rightarrow> object \<Rightarrow> object" where
  "mergePatch target (JObject pfields) =
     JObject (mergeFields (case target of JObject m \<Rightarrow> m | _ \<Rightarrow> []) pfields)"
| "mergePatch target JNull = JNull"
| "mergePatch target (JBool b) = JBool b"
| "mergePatch target (JNumber n) = JNumber n"
| "mergePatch target (JString s) = JString s"
| "mergePatch target (JArray xs) = JArray xs"
| "mergeFields m [] = m"
| "mergeFields m ((k, v) # pfields) =
     mergeFields
       (case v of
          JNull \<Rightarrow> AList.delete k m
        | _ \<Rightarrow> AList.update k (mergePatch (case map_of m k of Some t \<Rightarrow> t | None \<Rightarrow> JNull) v) m)
       pfields"

text \<open>The version token is opaque; every write gives the record a token it did not
  have before.\<close>

definition nextVersion :: "string \<Rightarrow> string" where
  "nextVersion rv = rv @ ''1''"

definition SetResourceVersion :: "string \<Rightarrow> object \<Rightarrow> object" where
  "SetResourceVersion rv obj =
     AList.update ''metadata''
       (JObject (AList.update ''resourceVersion'' (JString rv)
          (case map_of obj ''metadata'' of Some (JObject m) \<Rightarrow> m | _ \<Rightarrow> [])))
       obj"

definition Get :: "Context \<Rightarrow> string \<Rightarrow> cluster \<Rightarrow> error + object" where
  "Get ctx name s =
     (case ctxErr ctx of
        Some err \<Rightarrow> Inl err
      | None \<Rightarrow>
          (case getErr s name of
             Some err \<Rightarrow> Inl err
           | None \<Rightarrow>
               (case map_of (objects s) name of
                  None \<Rightarrow> Inl (StatusError StatusReasonNotFound)
                | Some obj \<Rightarrow> Inr obj)))"

definition List :: "Context \<Rightarrow> cluster \<Rightarrow> error + object list" where
  "List ctx s =
     (case ctxErr ctx of
        Some err \<Rightarrow> Inl err
      | None \<Rightarrow>
          (case listErr s of
             Some err \<Rightarrow> Inl err
           | None \<Rightarrow> Inr (map snd (objects s))))"

text \<open>
  A patch is applied to the stored record and the result is written only if its version
  token is still the stored one: a patch that names a token asserts it, and a patch
  that names none is unconditional.
\<close>

definition Patch :: "Context \<Rightarrow> string \<Rightarrow> patch_type \<Rightarrow> json \<Rightarrow> cluster \<Rightarrow> error option \<times> cluster" where
  "Patch ctx name pt data s =
     (let s' = s\<lparr>patches := patches s @ [\<lparr>patchName = name, patchType = pt, patchData = data\<rparr>]\<rparr> in
      case ctxErr ctx of
        Some err \<Rightarrow> (Some err, s')
      | None \<Rightarrow>
          (case patchErr s name of
             Some err \<Rightarrow> (Some err, s')
           | None \<Rightarrow>
               (case map_of (objects s) name of
                  None \<Rightarrow> (Some (StatusError StatusReasonNotFound), s')
                | Some obj \<Rightarrow>
                    (if pt \<noteq> MergePatchType
                     then (Some (StatusError StatusReasonUnsupportedMediaType), s')
                     else (case mergePatch (JObject obj) data of
                             JObject merged \<Rightarrow>
                               (if GetResourceVersion merged \<noteq> GetResourceVersion obj
                                then (Some (StatusError StatusReasonConflict), s')
                                else (None,
                                      s'\<lparr>objects :=
                                            AList.update name
                                              (SetResourceVersion (nextVersion (GetResourceVersion obj)) merged)
                                              (objects s)\<rparr>))
                           | _ \<Rightarrow> (Some (StatusError StatusReasonBadRequest), s'))))))"

section \<open>The client\<close>

text \<open>\<^verbatim>\<open>json.Marshal\<close> of a destination (\<^verbatim>\<open>name\<close> is \<^verbatim>\<open>omitempty\<close>) and of a
  slice of destinations (a nil slice is \<^verbatim>\<open>null\<close>).\<close>

definition marshalDestination :: "Destination \<Rightarrow> json" where
  "marshalDestination d =
     JObject ([(''server'', JString (Server d)), (''namespace'', JString (Namespace d))]
              @ (if Name d = [] then [] else [(''name'', JString (Name d))]))"

fun marshalDestinations :: "Destination slice \<Rightarrow> json" where
  "marshalDestinations NilSlice = JNull"
| "marshalDestinations (Slice ds) = JArray (map marshalDestination ds)"

definition GetDestinations :: "Context \<Rightarrow> string \<Rightarrow> cluster \<Rightarrow> error + (Destination slice \<times> string)" where
  "GetDestinations ctx projectName s =
     (case Get ctx projectName s of
        Inl err \<Rightarrow> Inl err
      | Inr project \<Rightarrow>
          (let resourceVersion = GetResourceVersion project in
           case extractDestinations project of
             Inl err \<Rightarrow> Inl err
           | Inr destinations \<Rightarrow> Inr (destinations, resourceVersion)))"

text \<open>The patch document of \<^verbatim>\<open>patchDestinations\<close>; \<^verbatim>\<open>json.Marshal\<close> cannot fail on
  it, so the marshalling error has no branch.\<close>

definition patchDocument :: "Destination slice \<Rightarrow> string \<Rightarrow> json" where
  "patchDocument destinations resourceVersion =
     JObject
       [(''metadata'', JObject [(''resourceVersion'', JString resourceVersion)]),
        (''spec'', JObject [(''destinations'', marshalDestinations destinations)])]"

definition patchDestinations ::
  "Context \<Rightarrow> string \<Rightarrow> Destination slice \<Rightarrow> string \<Rightarrow> cluster \<Rightarrow> error option \<times> cluster" where
  "patchDestinations ctx projectName destinations resourceVersion s =
     Patch ctx projectName MergePatchType (patchDocument destinations resourceVersion) s"

text \<open>The scan of \<^verbatim>\<open>AddDestination\<close>: true when the loop returns early.\<close>

fun alreadyExists :: "Destination list \<Rightarrow> Destination \<Rightarrow> bool" where
  "alreadyExists [] dest = False"
| "alreadyExists (existing # rest) dest =
     (if destinationsEqual existing dest then True else alreadyExists rest dest)"

definition AddDestination :: "Context \<Rightarrow> string \<Rightarrow> Destination \<Rightarrow> cluster \<Rightarrow> error option \<times> cluster" where
  "AddDestination ctx projectName dest s =
     (case GetDestinations ctx projectName s of
        Inl err \<Rightarrow> (Some err, s)
      | Inr (destinations, resourceVersion) \<Rightarrow>
          (if alreadyExists (elems destinations) dest then (None, s)
           else patchDestinations ctx projectName (append_slice destinations dest) resourceVersion s))"

text \<open>The loop of \<^verbatim>\<open>RemoveDestination\<close>, on the pair of \<^verbatim>\<open>newDestinations\<close> and
  \<^verbatim>\<open>found\<close>.\<close>

fun removeLoop :: "Destination list \<Rightarrow> Destination \<Rightarrow> Destination slice \<times> bool \<Rightarrow> Destination slice \<times> bool" where
  "removeLoop [] dest (newDestinations, found) = (newDestinations, found)"
| "removeLoop (existing # rest) dest (newDestinations, found) =
     (if destinationsEqual existing dest then removeLoop rest dest (newDestinations, True)
      else removeLoop rest dest (append_slice newDestinations existing, found))"

definition RemoveDestination :: "Context \<Rightarrow> string \<Rightarrow> Destination \<Rightarrow> cluster \<Rightarrow> error option \<times> cluster" where
  "RemoveDestination ctx projectName dest s =
     (case GetDestinations ctx projectName s of
        Inl err \<Rightarrow> (Some err, s)
      | Inr (destinations, resourceVersion) \<Rightarrow>
          (case removeLoop (elems destinations) dest (NilSlice, False) of
             (newDestinations, found) \<Rightarrow>
               (if \<not> found then (None, s)
                else patchDestinations ctx projectName newDestinations resourceVersion s)))"

record Project =
  ProjectName :: string
  DestinationCount :: int
  Destinations :: "Destination slice"

fun listLoop :: "object list \<Rightarrow> Project slice \<Rightarrow> Project slice" where
  "listLoop [] projects = projects"
| "listLoop (item # rest) projects =
     (let name = GetName item;
          destinations = (case extractDestinations item of
                            Inl err \<Rightarrow> NilSlice | Inr ds \<Rightarrow> ds);
          destinations = (if destinations = NilSlice then Slice [] else destinations)
      in listLoop rest
           (append_slice projects
              \<lparr>ProjectName = name,
               DestinationCount = int (len destinations),
               Destinations = destinations\<rparr>))"

definition ListProjects :: "Context \<Rightarrow> cluster \<Rightarrow> error + Project slice" where
  "ListProjects ctx s =
     (case List ctx s of
        Inl err \<Rightarrow> Inl err
      | Inr items \<Rightarrow> Inr (listLoop items NilSlice))"

section \<open>The audit log\<close>

text \<open>
  \<^verbatim>\<open>audit.Entry\<close> and \<^verbatim>\<open>audit.Logger\<close>. The logger's file is the sequence of entries
  appended to it; \<open>writeFails\<close> stands for a file the operating system refuses to
  write to. \<^verbatim>\<open>Log\<close> stamps the entry with the clock's reading, which is a parameter.
\<close>

record Entry =
  Timestamp :: nat
  Action :: string
  EntryProject :: string
  EntryServer :: string
  EntryNamespace :: string
  EntryName :: string
  Description :: string
  UserAgent :: string
  RemoteAddr :: string

record Logger =
  written :: "Entry list"
  writeFails :: bool

definition Log :: "nat \<Rightarrow> Entry \<Rightarrow> Logger \<Rightarrow> error option \<times> Logger" where
  "Log now entry l =
     (let entry = entry\<lparr>Timestamp := now\<rparr> in
      if writeFails l
      then (Some (Errorf ''failed to write audit entry'' (TransportError ''write'')), l)
      else (None, l\<lparr>written := written l @ [entry]\<rparr>))"

section \<open>The request handlers\<close>

text \<open>
  A request as the handlers read it: the \<^verbatim>\<open>project\<close> parameter of the URL, the body
  as \<^verbatim>\<open>json.Decode\<close> leaves it (\<open>None\<close> when decoding fails), the caller's user
  agent and address, and the request's context. The handlers of
  \<^verbatim>\<open>handlers/destinations.go\<close> take the project from the URL; the other version of the
  file takes it from the body's \<^verbatim>\<open>project\<close> field. A handler returns the response it
  writes, the store and the audit log; lines printed with \<^verbatim>\<open>log.Printf\<close> are left out.
\<close>

record DestinationRequest =
  ReqProject :: string
  ReqServer :: string
  ReqNamespace :: string
  ReqName :: string
  ReqDescription :: string

record Request =
  URLParamProject :: string
  DecodedBody :: "DestinationRequest option"
  RequestUserAgent :: string
  RequestRemoteAddr :: string
  RequestContext :: Context

datatype response_body =
    NoBody
  | ErrorResponse string
  | DestinationBody Destination

record Response =
  StatusCode :: nat
  Body :: response_body

abbreviation StatusCreated :: nat where "StatusCreated \<equiv> 201"
abbreviation StatusNoContent :: nat where "StatusNoContent \<equiv> 204"
abbreviation StatusBadRequest :: nat where "StatusBadRequest \<equiv> 400"
abbreviation StatusForbidden :: nat where "StatusForbidden \<equiv> 403"
abbreviation StatusNotFound :: nat where "StatusNotFound \<equiv> 404"
abbreviation StatusConflict :: nat where "StatusConflict \<equiv> 409"
abbreviation StatusInternalServerError :: nat where "StatusInternalServerError \<equiv> 500"

definition writeJSONError :: "nat \<Rightarrow> string \<Rightarrow> Response" where
  "writeJSONError status message = \<lparr>StatusCode = status, Body = ErrorResponse message\<rparr>"

text \<open>The pattern \<^verbatim>\<open>^[a-zA-Z0-9_-]+$\<close>: one or more characters, each of the class.\<close>

definition projectNameChar :: "char \<Rightarrow> bool" where
  "projectNameChar c =
     (let n = (of_char c :: nat) in
      (97 \<le> n \<and> n \<le> 122) \<or> (65 \<le> n \<and> n \<le> 90) \<or> (48 \<le> n \<and> n \<le> 57)
      \<or> n = 95 \<or> n = 45)"

definition projectNameRegex :: "string \<Rightarrow> bool" where
  "projectNameRegex project = (project \<noteq> [] \<and> list_all projectNameChar project)"

text \<open>The validators return the error response they write, or \<open>None\<close> where the source
  returns true.\<close>

definition validateProjectName :: "string \<Rightarrow> Response option" where
  "validateProjectName project =
     (if project = [] then Some (writeJSONError StatusBadRequest ''project name is required'')
      else if \<not> projectNameRegex project
      then Some (writeJSONError StatusBadRequest
        ''project name must contain only alphanumeric characters, dashes, and underscores'')
      else None)"

definition validateDestinationRequest :: "DestinationRequest \<Rightarrow> Response option" where
  "validateDestinationRequest req =
     (if ReqServer req = [] then Some (writeJSONError StatusBadRequest ''server is required'')
      else if ReqNamespace req = [] then Some (writeJSONError StatusBadRequest ''namespace is required'')
      else if ReqServer req = ''*''
      then Some (writeJSONError StatusBadRequest ''wildcard server (*) is not allowed'')
      else if ReqNamespace req = ''*''
      then Some (writeJSONError StatusBadRequest ''wildcard namespace (*) is not allowed'')
      else if ReqDescription req = []
      then Some (writeJSONError StatusBadRequest
        ''description is required (explain why this change is being made)'')
      else None)"

definition handleK8sError :: "error \<Rightarrow> string \<Rightarrow> Response" where
  "handleK8sError err project =
     (if IsNotFound err then writeJSONError StatusNotFound (''project not found: '' @ project)
      else if IsForbidden err
      then writeJSONError StatusForbidden (''access denied to project: '' @ project)
      else writeJSONError StatusInternalServerError ''internal server error'')"

definition DestinationHandler_AddDestination ::
  "nat \<Rightarrow> Request \<Rightarrow> cluster \<times> Logger \<Rightarrow> Response \<times> cluster \<times> Logger" where
  "DestinationHandler_AddDestination now r st =
     (case st of (s, l) \<Rightarrow>
      let project = URLParamProject r in
      case validateProjectName project of
        Some resp \<Rightarrow> (resp, s, l)
      | None \<Rightarrow>
          (case DecodedBody r of
             None \<Rightarrow> (writeJSONError StatusBadRequest ''invalid JSON body'', s, l)
           | Some req \<Rightarrow>
               (case validateDestinationRequest req of
                  Some resp \<Rightarrow> (resp, s, l)
                | None \<Rightarrow>
                    (let dest = \<lparr>Server = ReqServer req, Namespace = ReqNamespace req,
                                 Name = ReqName req\<rparr> in
                     case AddDestination (RequestContext r) project dest s of
                       (Some err, s') \<Rightarrow>
                         (if IsConflict err
                          then (writeJSONError StatusConflict ''resource was modified, please retry'', s', l)
                          else (handleK8sError err project, s', l))
                     | (None, s') \<Rightarrow>
                         (case Log now
                                 \<lparr>Timestamp = 0, Action = ''add'', EntryProject = project,
                                  EntryServer = ReqServer req, EntryNamespace = ReqNamespace req,
                                  EntryName = ReqName req, Description = ReqDescription req,
                                  UserAgent = RequestUserAgent r,
                                  RemoteAddr = RequestRemoteAddr r\<rparr> l of
                            (logErr, l') \<Rightarrow>
                              (\<lparr>StatusCode = StatusCreated, Body = DestinationBody dest\<rparr>, s', l'))))))"

definition DestinationHandler_RemoveDestination ::
  "nat \<Rightarrow> Request \<Rightarrow> cluster \<times> Logger \<Rightarrow> Response \<times> cluster \<times> Logger" where
  "DestinationHandler_RemoveDestination now r st =
     (case st of (s, l) \<Rightarrow>
      let project = URLParamProject r in
      case validateProjectName project of
        Some resp \<Rightarrow> (resp, s, l)
      | None \<Rightarrow>
          (case DecodedBody r of
             None \<Rightarrow> (writeJSONError StatusBadRequest ''invalid JSON body'', s, l)
           | Some req \<Rightarrow>
               (case validateDestinationRequest req of
                  Some resp \<Rightarrow> (resp, s, l)
                | None \<Rightarrow>
                    (let dest = \<lparr>Server = ReqServer req, Namespace = ReqNamespace req,
                                 Name = ReqName req\<rparr> in
                     case RemoveDestination (RequestContext r) project dest s of
                       (Some err, s') \<Rightarrow>
                         (if IsConflict err
                          then (writeJSONError StatusConflict ''resource was modified, please retry'', s', l)
                          else (handleK8sError err project, s', l))
                     | (None, s') \<Rightarrow>
                         (case Log now
                                 \<lparr>Timestamp = 0, Action = ''remove'', EntryProject = project,
                                  EntryServer = ReqServer req, EntryNamespace = ReqNamespace req,
                                  EntryName = ReqName req, Description = ReqDescription req,
                                  UserAgent = RequestUserAgent r,
                                  RemoteAddr = RequestRemoteAddr r\<rparr> l of
                            (logErr, l') \<Rightarrow>
                              (\<lparr>StatusCode = StatusNoContent, Body = NoBody\<rparr>, s', l'))))))"

text \<open>
  The version of the handlers that reads the project from the body: decoding comes
  first, and \<^verbatim>\<open>validateDestinationRequest\<close> checks the project name before the other
  fields.
\<close>

definition validateDestinationRequest_byBody :: "DestinationRequest \<Rightarrow> Response option" where
  "validateDestinationRequest_byBody req =
     (case validateProjectName (ReqProject req) of
        Some resp \<Rightarrow> Some resp
      | None \<Rightarrow> validateDestinationRequest req)"

definition DestinationHandler_AddDestination_byBody ::
  "nat \<Rightarrow> Request \<Rightarrow> cluster \<times> Logger \<Rightarrow> Response \<times> cluster \<times> Logger" where
  "DestinationHandler_AddDestination_byBody now r st =
     (case st of (s, l) \<Rightarrow>
      case DecodedBody r of
        None \<Rightarrow> (writeJSONError StatusBadRequest ''invalid JSON body'', s, l)
      | Some req \<Rightarrow>
          (case validateDestinationRequest_byBody req of
             Some resp \<Rightarrow> (resp, s, l)
           | None \<Rightarrow>
               (let dest = \<lparr>Server = ReqServer req, Namespace = ReqNamespace req,
                            Name = ReqName req\<rparr> in
                case AddDestination (RequestContext r) (ReqProject req) dest s of
                  (Some err, s') \<Rightarrow>
                    (if IsConflict err
                     then (writeJSONError StatusConflict ''resource was modified, please retry'', s', l)
                     else (handleK8sError err (ReqProject req), s', l))
                | (None, s') \<Rightarrow>
                    (case Log now
                            \<lparr>Timestamp = 0, Action = ''add'', EntryProject = ReqProject req,
                             EntryServer = ReqServer req, EntryNamespace = ReqNamespace req,
                             EntryName = ReqName req, Description = ReqDescription req,
                             UserAgent = RequestUserAgent r,
                             RemoteAddr = RequestRemoteAddr r\<rparr> l of
                       (logErr, l') \<Rightarrow>
                         (\<lparr>StatusCode = StatusCreated, Body = DestinationBody dest\<rparr>, s', l')))))"

definition DestinationHandler_RemoveDestination_byBody ::
  "nat \<Rightarrow> Request \<Rightarrow> cluster \<times> Logger \<Rightarrow> Response \<times> cluster \<times> Logger" where
  "DestinationHandler_RemoveDestination_byBody now r st =
     (case st of (s, l) \<Rightarrow>
      case DecodedBody r of
        None \<Rightarrow> (writeJSONError StatusBadRequest ''invalid JSON body'', s, l)
      | Some req \<Rightarrow>
          (case validateDestinationRequest_byBody req of
             Some resp \<Rightarrow> (resp, s, l)
           | None \<Rightarrow>
               (let dest = \<lparr>Server = ReqServer req, Namespace = ReqNamespace req,
                            Name = ReqName req\<rparr> in
                case RemoveDestination (RequestContext r) (ReqProject req) dest s of
                  (Some err, s') \<Rightarrow>
                    (if IsConflict err
                     then (writeJSONError StatusConflict ''resource was modified, please retry'', s', l)
                     else (handleK8sError err (ReqProject req), s', l))
                | (None, s') \<Rightarrow>
                    (case Log now
                            \<lparr>Timestamp = 0, Action = ''remove'', EntryProject = ReqProject req,
                             EntryServer = ReqServer req, EntryNamespace = ReqNamespace req,
                             EntryName = ReqName req, Description = ReqDescription req,
                             UserAgent = RequestUserAgent r,
                             RemoteAddr = RequestRemoteAddr r\<rparr> l of
                       (logErr, l') \<Rightarrow>
                         (\<lparr>StatusCode = StatusNoContent, Body = NoBody\<rparr>, s', l')))))"

section \<open>Reading a record's fields\<close>

text \<open>The fields of a value that is an object, and none for a value that is missing
  or of another shape: used to say which fields a patch leaves alone.\<close>

definition fieldsOf :: "json option \<Rightarrow> object" where
  "fieldsOf v = (case v of Some (JObject m) \<Rightarrow> m | _ \<Rightarrow> [])"

section \<open>Example data\<close>

text \<open>
  The record of the specification's example: \<open>R\<close> with the one destination
  \<open>{server: a, namespace: ns1}\<close> at version \<open>v1\<close>, in a store that answers every
  request; a second record with three destinations; and a request that passes
  validation.
\<close>

definition exampleProject :: object where
  "exampleProject =
     [(''metadata'', JObject [(''name'', JString ''R''), (''resourceVersion'', JString ''v1'')]),
      (''spec'',
         JObject [(''description'', JString ''demo''),
                  (''destinations'',
                     JArray [JObject [(''server'', JString ''a''), (''namespace'', JString ''ns1'')]])])]"

definition exampleProject3 :: object where
  "exampleProject3 =
     [(''metadata'', JObject [(''name'', JString ''S''), (''resourceVersion'', JString ''7'')]),
      (''spec'',
         JObject [(''destinations'',
                     JArray [JObject [(''server'', JString ''a''), (''namespace'', JString ''ns1'')],
                             JObject [(''server'', JString ''b''), (''namespace'', JString ''ns2'')],
                             JObject [(''server'', JString ''c''), (''namespace'', JString ''ns3''),
                                      (''name'', JString ''third'')]])])]"

definition exampleCluster :: cluster where
  "exampleCluster =
     \<lparr>objects = [(''R'', exampleProject), (''S'', exampleProject3)],
      getErr = (\<lambda>name. None), listErr = None, patchErr = (\<lambda>name. None), patches = []\<rparr>"

definition exampleRequest :: "string \<Rightarrow> string \<Rightarrow> Request" where
  "exampleRequest server namespace =
     \<lparr>URLParamProject = ''R'',
      DecodedBody = Some \<lparr>ReqProject = ''R'', ReqServer = server, ReqNamespace = namespace,
                           ReqName = [], ReqDescription = ''ticket 42''\<rparr>,
      RequestUserAgent = ''curl'', RequestRemoteAddr = ''10.0.0.1'',
      RequestContext = CtxActive\<rparr>"

definition exampleLogger :: Logger where
  "exampleLogger = \<lparr>written = [], writeFails = False\<rparr>"

section \<open>Basic facts\<close>

lemmas example_defs = exampleCluster_def exampleProject_def exampleProject3_def

lemmas eval_defs =
  GetDestinations_def Get_def extractDestinations_def NestedMap_def NestedSlice_def
  NestedString_def GetResourceVersion_def getNestedString_def destinationOfMap_def
  append_slice_def AddDestination_def RemoveDestination_def patchDestinations_def
  patchDocument_def Patch_def marshalDestination_def destinationsEqual_def
  SetResourceVersion_def nextVersion_def Let_def

lemma destinationsEqual_iff: "destinationsEqual a b \<longleftrightarrow> a = b"
  by (cases a, cases b) (auto simp: destinationsEqual_def)

lemma alreadyExists_iff:
  "alreadyExists ds dest \<longleftrightarrow> (\<exists>existing \<in> set ds. destinationsEqual existing dest)"
  by (induction ds) auto

lemma removeLoop_filter:
  "removeLoop ds dest (acc, found) =
     ((if filter (\<lambda>e. \<not> destinationsEqual e dest) ds = [] then acc
       else Slice (elems acc @ filter (\<lambda>e. \<not> destinationsEqual e dest) ds)),
      found \<or> (\<exists>e \<in> set ds. destinationsEqual e dest))"
proof (induction ds arbitrary: acc found)
  case Nil
  then show ?case by simp
next
  case (Cons e ds)
  show ?case
  proof (cases "destinationsEqual e dest")
    case True
    then show ?thesis by (simp add: Cons.IH)
  next
    case False
    then show ?thesis by (simp add: Cons.IH append_slice_def)
  qed
qed

lemma patches_Patch:
  "patches (snd (Patch ctx name pt data s)) =
     patches s @ [\<lparr>patchName = name, patchType = pt, patchData = data\<rparr>]"
  by (simp add: Patch_def Let_def split: option.splits json.splits)

lemma example_GetDestinations_R:
  "GetDestinations CtxActive ''R'' exampleCluster =
     Inr (Slice [\<lparr>Server = ''a'', Namespace = ''ns1'', Name = []\<rparr>], ''v1'')"
  by (simp add: example_defs eval_defs)

lemma example_GetDestinations_S:
  "GetDestinations CtxActive ''S'' exampleCluster =
     Inr (Slice [\<lparr>Server = ''a'', Namespace = ''ns1'', Name = []\<rparr>,
                 \<lparr>Server = ''b'', Namespace = ''ns2'', Name = []\<rparr>,
                 \<lparr>Server = ''c'', Namespace = ''ns3'', Name = ''third''\<rparr>], ''7'')"
  by (simp add: example_defs eval_defs)

section \<open>Adding a destination that is not there\<close>

text \<open>
  Claim C3. When the fetched list holds no destination equal to \<open>dest\<close>,
  \<^verbatim>\<open>AddDestination\<close> is one merge patch of the project: its document names the version
  token the fetch returned and carries the fetched destinations in their order with
  \<open>dest\<close> appended at the end. The example of the specification is the witness.
\<close>

theorem AddDestination_appends:
  assumes "GetDestinations ctx projectName s = Inr (destinations, resourceVersion)"
    and "\<forall>existing \<in> set (elems destinations). \<not> destinationsEqual existing dest"
  shows "AddDestination ctx projectName dest s =
           Patch ctx projectName MergePatchType
             (patchDocument (Slice (elems destinations @ [dest])) resourceVersion) s
         \<and> patches (snd (AddDestination ctx projectName dest s)) =
           patches s @
             [\<lparr>patchName = projectName, patchType = MergePatchType,
               patchData =
                 JObject
                   [(''metadata'', JObject [(''resourceVersion'', JString resourceVersion)]),
                    (''spec'',
                       JObject [(''destinations'',
                                 JArray (map marshalDestination (elems destinations @ [dest])))])]\<rparr>]"
proof -
  have "\<not> alreadyExists (elems destinations) dest"
    using assms(2) by (simp add: alreadyExists_iff)
  then have call: "AddDestination ctx projectName dest s =
      Patch ctx projectName MergePatchType
        (patchDocument (Slice (elems destinations @ [dest])) resourceVersion) s"
    using assms(1) by (simp add: AddDestination_def patchDestinations_def append_slice_def)
  show ?thesis
    unfolding call by (simp add: patches_Patch patchDocument_def)
qed

theorem AddDestination_appends_witness:
  "GetDestinations CtxActive ''R'' exampleCluster =
     Inr (Slice [\<lparr>Server = ''a'', Namespace = ''ns1'', Name = []\<rparr>], ''v1'')
   \<and> patches (snd (AddDestination CtxActive ''R''
         \<lparr>Server = ''b'', Namespace = ''ns2'', Name = []\<rparr> exampleCluster)) =
       [\<lparr>patchName = ''R'', patchType = MergePatchType,
         patchData =
           JObject
             [(''metadata'', JObject [(''resourceVersion'', JString ''v1'')]),
              (''spec'',
                 JObject [(''destinations'',
                   JArray [JObject [(''server'', JString ''a''), (''namespace'', JString ''ns1'')],
                           JObject [(''server'', JString ''b''), (''namespace'', JString ''ns2'')]])])]\<rparr>]"
proof -
  have g: "GetDestinations CtxActive ''R'' exampleCluster =
     Inr (Slice [\<lparr>Server = ''a'', Namespace = ''ns1'', Name = []\<rparr>], ''v1'')"
    by (rule example_GetDestinations_R)
  have h: "\<forall>existing \<in> set (elems (Slice [\<lparr>Server = ''a'', Namespace = ''ns1'', Name = []\<rparr>])).
             \<not> destinationsEqual existing \<lparr>Server = ''b'', Namespace = ''ns2'', Name = []\<rparr>"
    by (simp add: destinationsEqual_def)
  have "patches (snd (AddDestination CtxActive ''R''
         \<lparr>Server = ''b'', Namespace = ''ns2'', Name = []\<rparr> exampleCluster)) =
       patches exampleCluster @
       [\<lparr>patchName = ''R'', patchType = MergePatchType,
         patchData =
           JObject
             [(''metadata'', JObject [(''resourceVersion'', JString ''v1'')]),
              (''spec'',
                 JObject [(''destinations'',
                   JArray (map marshalDestination
                     (elems (Slice [\<lparr>Server = ''a'', Namespace = ''ns1'', Name = []\<rparr>])
                      @ [\<lparr>Server = ''b'', Namespace = ''ns2'', Name = []\<rparr>])))])]\<rparr>]"
    using AddDestination_appends [OF g h] by (rule conjunct2)
  then show ?thesis
    using g by (simp add: marshalDestination_def exampleCluster_def)
qed

section \<open>Removing a destination\<close>

text \<open>
  Claim C2. The loop of \<^verbatim>\<open>RemoveDestination\<close> keeps the fetched destinations that are
  not equal to \<open>dest\<close>, in their order (\<open>filter\<close>), and reports whether it dropped any.
  When it dropped none the call returns with the store as it was, the list of patches
  sent included. Otherwise the call is one merge patch that carries the kept
  destinations and the fetched version token. A sequence with nothing kept is the nil
  slice, which \<^verbatim>\<open>json.Marshal\<close> writes as \<^verbatim>\<open>null\<close>.
\<close>

theorem RemoveDestination_filters:
  assumes "GetDestinations ctx projectName s = Inr (destinations, resourceVersion)"
  shows "let kept = filter (\<lambda>existing. \<not> destinationsEqual existing dest) (elems destinations);
             newDestinations = (if kept = [] then NilSlice else Slice kept)
         in removeLoop (elems destinations) dest (NilSlice, False) =
              (newDestinations, kept \<noteq> elems destinations)
            \<and> (if kept = elems destinations
               then RemoveDestination ctx projectName dest s = (None, s)
               else RemoveDestination ctx projectName dest s =
                      Patch ctx projectName MergePatchType
                        (patchDocument newDestinations resourceVersion) s
                    \<and> patches (snd (RemoveDestination ctx projectName dest s)) =
                      patches s @
                        [\<lparr>patchName = projectName, patchType = MergePatchType,
                          patchData =
                            JObject
                              [(''metadata'', JObject [(''resourceVersion'', JString resourceVersion)]),
                               (''spec'',
                                  JObject [(''destinations'',
                                            marshalDestinations newDestinations)])]\<rparr>])"
proof -
  define kept where "kept = filter (\<lambda>existing. \<not> destinationsEqual existing dest) (elems destinations)"
  define newDestinations where "newDestinations = (if kept = [] then NilSlice else Slice kept)"
  have loop: "removeLoop (elems destinations) dest (NilSlice, False) =
      (newDestinations, kept \<noteq> elems destinations)"
    by (simp add: removeLoop_filter filter_id_conv kept_def newDestinations_def)
  have body: "if kept = elems destinations
     then RemoveDestination ctx projectName dest s = (None, s)
     else RemoveDestination ctx projectName dest s =
            Patch ctx projectName MergePatchType
              (patchDocument newDestinations resourceVersion) s
          \<and> patches (snd (RemoveDestination ctx projectName dest s)) =
            patches s @
              [\<lparr>patchName = projectName, patchType = MergePatchType,
                patchData =
                  JObject
                    [(''metadata'', JObject [(''resourceVersion'', JString resourceVersion)]),
                     (''spec'',
                        JObject [(''destinations'', marshalDestinations newDestinations)])]\<rparr>]"
  proof (cases "kept = elems destinations")
    case True
    then have "RemoveDestination ctx projectName dest s = (None, s)"
      using assms loop by (simp add: RemoveDestination_def)
    with True show ?thesis by simp
  next
    case False
    then have call: "RemoveDestination ctx projectName dest s =
        Patch ctx projectName MergePatchType
          (patchDocument newDestinations resourceVersion) s"
      using assms loop by (simp add: RemoveDestination_def patchDestinations_def)
    have "patches (snd (RemoveDestination ctx projectName dest s)) =
        patches s @
          [\<lparr>patchName = projectName, patchType = MergePatchType,
            patchData = patchDocument newDestinations resourceVersion\<rparr>]"
      unfolding call by (simp add: patches_Patch)
    with False call show ?thesis by (simp add: patchDocument_def)
  qed
  from loop body show ?thesis
    unfolding Let_def kept_def [symmetric] newDestinations_def [symmetric] by simp
qed

theorem RemoveDestination_filters_witness:
  "GetDestinations CtxActive ''S'' exampleCluster =
     Inr (Slice [\<lparr>Server = ''a'', Namespace = ''ns1'', Name = []\<rparr>,
                 \<lparr>Server = ''b'', Namespace = ''ns2'', Name = []\<rparr>,
                 \<lparr>Server = ''c'', Namespace = ''ns3'', Name = ''third''\<rparr>], ''7'')
   \<and> patches (snd (RemoveDestination CtxActive ''S''
         \<lparr>Server = ''b'', Namespace = ''ns2'', Name = []\<rparr> exampleCluster)) =
       [\<lparr>patchName = ''S'', patchType = MergePatchType,
         patchData =
           JObject
             [(''metadata'', JObject [(''resourceVersion'', JString ''7'')]),
              (''spec'',
                 JObject [(''destinations'',
                   JArray [JObject [(''server'', JString ''a''), (''namespace'', JString ''ns1'')],
                           JObject [(''server'', JString ''c''), (''namespace'', JString ''ns3''),
                                    (''name'', JString ''third'')]])])]\<rparr>]
   \<and> RemoveDestination CtxActive ''S''
         \<lparr>Server = ''z'', Namespace = ''zz'', Name = []\<rparr> exampleCluster = (None, exampleCluster)"
proof -
  have g: "GetDestinations CtxActive ''S'' exampleCluster =
     Inr (Slice [\<lparr>Server = ''a'', Namespace = ''ns1'', Name = []\<rparr>,
                 \<lparr>Server = ''b'', Namespace = ''ns2'', Name = []\<rparr>,
                 \<lparr>Server = ''c'', Namespace = ''ns3'', Name = ''third''\<rparr>], ''7'')"
    by (rule example_GetDestinations_S)
  have b: "patches (snd (RemoveDestination CtxActive ''S''
         \<lparr>Server = ''b'', Namespace = ''ns2'', Name = []\<rparr> exampleCluster)) =
       [\<lparr>patchName = ''S'', patchType = MergePatchType,
         patchData =
           JObject
             [(''metadata'', JObject [(''resourceVersion'', JString ''7'')]),
              (''spec'',
                 JObject [(''destinations'',
                   JArray [JObject [(''server'', JString ''a''), (''namespace'', JString ''ns1'')],
                           JObject [(''server'', JString ''c''), (''namespace'', JString ''ns3''),
                                    (''name'', JString ''third'')]])])]\<rparr>]"
    using RemoveDestination_filters [OF g, of "\<lparr>Server = ''b'', Namespace = ''ns2'', Name = []\<rparr>"]
    by (simp add: Let_def destinationsEqual_def marshalDestination_def exampleCluster_def
        patches_Patch patchDocument_def)
  have z: "RemoveDestination CtxActive ''S''
         \<lparr>Server = ''z'', Namespace = ''zz'', Name = []\<rparr> exampleCluster = (None, exampleCluster)"
    using RemoveDestination_filters [OF g, of "\<lparr>Server = ''z'', Namespace = ''zz'', Name = []\<rparr>"]
    by (simp add: Let_def destinationsEqual_def)
  from g b z show ?thesis by simp
qed

section \<open>What the patch does to the record\<close>

lemma fieldsOf_target:
  "(case (case x of Some t \<Rightarrow> t | None \<Rightarrow> JNull) of JObject m \<Rightarrow> m | _ \<Rightarrow> []) = fieldsOf x"
  by (auto simp: fieldsOf_def split: option.splits json.splits)

lemma fieldsOf_Some_JObject: "fieldsOf (Some (JObject m)) = m"
  by (simp add: fieldsOf_def)

lemma mergePatch_patchDocument:
  "\<exists>m. mergePatch (JObject obj) (patchDocument ds rv) = JObject m
       \<and> map_of m ''spec'' =
           Some (JObject (case ds of
                   NilSlice \<Rightarrow> AList.delete ''destinations'' (fieldsOf (map_of obj ''spec''))
                 | Slice xs \<Rightarrow> AList.update ''destinations'' (JArray (map marshalDestination xs))
                                (fieldsOf (map_of obj ''spec''))))
       \<and> map_of m ''metadata'' =
           Some (JObject (AList.update ''resourceVersion'' (JString rv)
                   (fieldsOf (map_of obj ''metadata''))))
       \<and> (\<forall>k. k \<noteq> ''spec'' \<and> k \<noteq> ''metadata'' \<longrightarrow> map_of m k = map_of obj k)"
  by (cases ds) (simp_all add: patchDocument_def fieldsOf_target update_conv')

lemma map_of_SetResourceVersion:
  "map_of (SetResourceVersion v m) k =
     (if k = ''metadata''
      then Some (JObject (AList.update ''resourceVersion'' (JString v) (fieldsOf (map_of m ''metadata''))))
      else map_of m k)"
  by (simp add: SetResourceVersion_def update_conv' fieldsOf_def)

lemma GetResourceVersion_metadata:
  "map_of obj ''metadata'' = Some (JObject (AList.update ''resourceVersion'' (JString v) f))
   \<Longrightarrow> GetResourceVersion obj = v"
  by (simp add: GetResourceVersion_def getNestedString_def NestedString_def update_conv')

lemma destinationOfMap_marshal:
  "destinationOfMap ([(''server'', JString (Server d)), (''namespace'', JString (Namespace d))]
              @ (if Name d = [] then [] else [(''name'', JString (Name d))])) = d"
  by (cases d) (simp add: destinationOfMap_def)

lemma extractLoop_marshal:
  "extractLoop (map marshalDestination xs) acc = (if xs = [] then acc else Slice (elems acc @ xs))"
proof (induction xs arbitrary: acc)
  case Nil
  then show ?case by simp
next
  case (Cons x xs)
  have "marshalDestination x =
      JObject ([(''server'', JString (Server x)), (''namespace'', JString (Namespace x))]
              @ (if Name x = [] then [] else [(''name'', JString (Name x))]))"
    by (simp add: marshalDestination_def)
  then have "extractLoop (map marshalDestination (x # xs)) acc =
      extractLoop (map marshalDestination xs) (append_slice acc x)"
    using destinationOfMap_marshal [of x] by simp
  then show ?case
    by (simp add: Cons.IH append_slice_def)
qed

lemma extractDestinations_of_spec:
  assumes "map_of obj ''spec'' =
      Some (JObject (case ds of
              NilSlice \<Rightarrow> AList.delete ''destinations'' f
            | Slice xs \<Rightarrow> AList.update ''destinations'' (JArray (map marshalDestination xs)) f))"
  shows "\<exists>ds'. extractDestinations obj = Inr ds' \<and> elems ds' = elems ds"
proof (cases ds)
  case NilSlice
  then show ?thesis
    using assms
    by (simp add: extractDestinations_def NestedMap_def NestedSlice_def delete_conv')
next
  case (Slice xs)
  then show ?thesis
    using assms
    by (simp add: extractDestinations_def NestedMap_def NestedSlice_def update_conv'
        extractLoop_marshal)
qed

lemma Get_Inr:
  "Get ctx n s = Inr obj \<longleftrightarrow>
     ctxErr ctx = None \<and> getErr s n = None \<and> map_of (objects s) n = Some obj"
  by (auto simp: Get_def split: option.splits)

lemma GetDestinations_Inr:
  "GetDestinations ctx n s = Inr (ds, rv) \<longleftrightarrow>
     (\<exists>obj. Get ctx n s = Inr obj \<and> rv = GetResourceVersion obj \<and> extractDestinations obj = Inr ds)"
  by (auto simp: GetDestinations_def Let_def split: sum.splits)

text \<open>The outcome of the patch of \<^verbatim>\<open>patchDestinations\<close> on a record the store has.\<close>

lemma patchDestinations_result:
  assumes "Get ctx n s = Inr obj"
  shows "\<exists>obj'.
     patchDestinations ctx n ds rv s =
       (case patchErr s n of
          Some err \<Rightarrow>
            (Some err,
             s\<lparr>patches := patches s @
                 [\<lparr>patchName = n, patchType = MergePatchType, patchData = patchDocument ds rv\<rparr>]\<rparr>)
        | None \<Rightarrow>
            (if GetResourceVersion obj \<noteq> rv
             then (Some (StatusError StatusReasonConflict),
                   s\<lparr>patches := patches s @
                       [\<lparr>patchName = n, patchType = MergePatchType, patchData = patchDocument ds rv\<rparr>]\<rparr>)
             else (None,
                   s\<lparr>patches := patches s @
                       [\<lparr>patchName = n, patchType = MergePatchType, patchData = patchDocument ds rv\<rparr>],
                     objects := AList.update n obj' (objects s)\<rparr>)))
     \<and> GetResourceVersion obj' = nextVersion (GetResourceVersion obj)
     \<and> (\<exists>ds'. extractDestinations obj' = Inr ds' \<and> elems ds' = elems ds)
     \<and> (\<forall>k. k \<noteq> ''spec'' \<and> k \<noteq> ''metadata'' \<longrightarrow> map_of obj' k = map_of obj k)
     \<and> (\<forall>k. k \<noteq> ''destinations'' \<longrightarrow>
            map_of (fieldsOf (map_of obj' ''spec'')) k = map_of (fieldsOf (map_of obj ''spec'')) k)
     \<and> (\<forall>k. k \<noteq> ''resourceVersion'' \<longrightarrow>
            map_of (fieldsOf (map_of obj' ''metadata'')) k =
            map_of (fieldsOf (map_of obj ''metadata'')) k)"
proof -
  obtain m where m: "mergePatch (JObject obj) (patchDocument ds rv) = JObject m"
    and m_spec: "map_of m ''spec'' =
           Some (JObject (case ds of
                   NilSlice \<Rightarrow> AList.delete ''destinations'' (fieldsOf (map_of obj ''spec''))
                 | Slice xs \<Rightarrow> AList.update ''destinations'' (JArray (map marshalDestination xs))
                                (fieldsOf (map_of obj ''spec''))))"
    and m_meta: "map_of m ''metadata'' =
           Some (JObject (AList.update ''resourceVersion'' (JString rv)
                   (fieldsOf (map_of obj ''metadata''))))"
    and m_rest: "\<forall>k. k \<noteq> ''spec'' \<and> k \<noteq> ''metadata'' \<longrightarrow> map_of m k = map_of obj k"
    using mergePatch_patchDocument [of obj ds rv] by blast
  define obj' where "obj' = SetResourceVersion (nextVersion (GetResourceVersion obj)) m"
  have rv_m: "GetResourceVersion m = rv"
    using m_meta by (rule GetResourceVersion_metadata)
  from assms have ctx: "ctxErr ctx = None" and found: "map_of (objects s) n = Some obj"
    by (simp_all add: Get_Inr)
  have call: "patchDestinations ctx n ds rv s =
       (case patchErr s n of
          Some err \<Rightarrow>
            (Some err,
             s\<lparr>patches := patches s @
                 [\<lparr>patchName = n, patchType = MergePatchType, patchData = patchDocument ds rv\<rparr>]\<rparr>)
        | None \<Rightarrow>
            (if GetResourceVersion obj \<noteq> rv
             then (Some (StatusError StatusReasonConflict),
                   s\<lparr>patches := patches s @
                       [\<lparr>patchName = n, patchType = MergePatchType, patchData = patchDocument ds rv\<rparr>]\<rparr>)
             else (None,
                   s\<lparr>patches := patches s @
                       [\<lparr>patchName = n, patchType = MergePatchType, patchData = patchDocument ds rv\<rparr>],
                     objects := AList.update n obj' (objects s)\<rparr>)))"
    using ctx found m rv_m
    by (auto simp: patchDestinations_def Patch_def Let_def obj'_def split: option.splits)
  have v: "GetResourceVersion obj' = nextVersion (GetResourceVersion obj)"
    by (rule GetResourceVersion_metadata) (simp add: obj'_def map_of_SetResourceVersion)
  have "map_of obj' ''spec'' = map_of m ''spec''"
    by (simp add: obj'_def map_of_SetResourceVersion)
  with m_spec have spec': "map_of obj' ''spec'' =
           Some (JObject (case ds of
                   NilSlice \<Rightarrow> AList.delete ''destinations'' (fieldsOf (map_of obj ''spec''))
                 | Slice xs \<Rightarrow> AList.update ''destinations'' (JArray (map marshalDestination xs))
                                (fieldsOf (map_of obj ''spec''))))"
    by simp
  then have ex: "\<exists>ds'. extractDestinations obj' = Inr ds' \<and> elems ds' = elems ds"
    by (rule extractDestinations_of_spec)
  have rest: "\<forall>k. k \<noteq> ''spec'' \<and> k \<noteq> ''metadata'' \<longrightarrow> map_of obj' k = map_of obj k"
    using m_rest by (simp add: obj'_def map_of_SetResourceVersion)
  have spec_frame: "\<forall>k. k \<noteq> ''destinations'' \<longrightarrow>
            map_of (fieldsOf (map_of obj' ''spec'')) k = map_of (fieldsOf (map_of obj ''spec'')) k"
    unfolding spec' fieldsOf_Some_JObject
    by (cases ds) (simp_all add: update_conv' delete_conv')
  have "map_of obj' ''metadata'' =
      Some (JObject (AList.update ''resourceVersion'' (JString (nextVersion (GetResourceVersion obj)))
        (AList.update ''resourceVersion'' (JString rv) (fieldsOf (map_of obj ''metadata'')))))"
    using m_meta by (simp add: obj'_def map_of_SetResourceVersion fieldsOf_Some_JObject)
  then have meta_frame: "\<forall>k. k \<noteq> ''resourceVersion'' \<longrightarrow>
            map_of (fieldsOf (map_of obj' ''metadata'')) k =
            map_of (fieldsOf (map_of obj ''metadata'')) k"
    by (simp add: fieldsOf_Some_JObject update_conv')
  from call v ex rest spec_frame meta_frame show ?thesis by blast
qed

text \<open>
  Claim C5. The patch \<^verbatim>\<open>patchDestinations\<close> sends is a merge patch whose document
  names two fields only: \<open>metadata.resourceVersion\<close>, the expected version token, and
  \<open>spec.destinations\<close>, the whole new sequence. On a record the store has and lets
  the caller patch: a token other than the record's is answered with a conflict and
  no record changes; with the record's token the patch is committed, the destinations
  read back from the record are the new sequence whatever the old ones were, the
  record gets its next version token, and every other field of the record, of its
  \<open>spec\<close> and of its \<open>metadata\<close> is as before, as is every other record.
\<close>

theorem patchDestinations_overwrites:
  assumes "Get ctx projectName s = Inr project" and "patchErr s projectName = None"
  shows "patches (snd (patchDestinations ctx projectName destinations resourceVersion s)) =
           patches s @
             [\<lparr>patchName = projectName, patchType = MergePatchType,
               patchData =
                 JObject
                   [(''metadata'', JObject [(''resourceVersion'', JString resourceVersion)]),
                    (''spec'', JObject [(''destinations'', marshalDestinations destinations)])]\<rparr>]
         \<and> (GetResourceVersion project \<noteq> resourceVersion \<longrightarrow>
              fst (patchDestinations ctx projectName destinations resourceVersion s) =
                Some (StatusError StatusReasonConflict)
              \<and> objects (snd (patchDestinations ctx projectName destinations resourceVersion s)) =
                objects s)
         \<and> (GetResourceVersion project = resourceVersion \<longrightarrow>
              fst (patchDestinations ctx projectName destinations resourceVersion s) = None
              \<and> (\<exists>project'.
                    objects (snd (patchDestinations ctx projectName destinations resourceVersion s)) =
                      AList.update projectName project' (objects s)
                    \<and> (\<exists>ds'. extractDestinations project' = Inr ds' \<and> elems ds' = elems destinations)
                    \<and> GetResourceVersion project' = nextVersion resourceVersion
                    \<and> (\<forall>k. k \<noteq> ''spec'' \<and> k \<noteq> ''metadata'' \<longrightarrow> map_of project' k = map_of project k)
                    \<and> (\<forall>k. k \<noteq> ''destinations'' \<longrightarrow>
                          map_of (fieldsOf (map_of project' ''spec'')) k =
                          map_of (fieldsOf (map_of project ''spec'')) k)
                    \<and> (\<forall>k. k \<noteq> ''resourceVersion'' \<longrightarrow>
                          map_of (fieldsOf (map_of project' ''metadata'')) k =
                          map_of (fieldsOf (map_of project ''metadata'')) k)))"
proof -
  let ?r = "patchDestinations ctx projectName destinations resourceVersion s"
  have sent: "patches (snd ?r) =
      patches s @
        [\<lparr>patchName = projectName, patchType = MergePatchType,
          patchData =
            JObject
              [(''metadata'', JObject [(''resourceVersion'', JString resourceVersion)]),
               (''spec'', JObject [(''destinations'', marshalDestinations destinations)])]\<rparr>]"
    by (simp add: patchDestinations_def patches_Patch patchDocument_def)
  obtain project' where
    call: "?r =
       (if GetResourceVersion project \<noteq> resourceVersion
        then (Some (StatusError StatusReasonConflict),
              s\<lparr>patches := patches s @
                  [\<lparr>patchName = projectName, patchType = MergePatchType,
                    patchData = patchDocument destinations resourceVersion\<rparr>]\<rparr>)
        else (None,
              s\<lparr>patches := patches s @
                  [\<lparr>patchName = projectName, patchType = MergePatchType,
                    patchData = patchDocument destinations resourceVersion\<rparr>],
                objects := AList.update projectName project' (objects s)\<rparr>))"
    and v: "GetResourceVersion project' = nextVersion (GetResourceVersion project)"
    and ex: "\<exists>ds'. extractDestinations project' = Inr ds' \<and> elems ds' = elems destinations"
    and rest: "\<forall>k. k \<noteq> ''spec'' \<and> k \<noteq> ''metadata'' \<longrightarrow> map_of project' k = map_of project k"
    and spec_frame: "\<forall>k. k \<noteq> ''destinations'' \<longrightarrow>
          map_of (fieldsOf (map_of project' ''spec'')) k =
          map_of (fieldsOf (map_of project ''spec'')) k"
    and meta_frame: "\<forall>k. k \<noteq> ''resourceVersion'' \<longrightarrow>
          map_of (fieldsOf (map_of project' ''metadata'')) k =
          map_of (fieldsOf (map_of project ''metadata'')) k"
    using patchDestinations_result [OF assms(1), of destinations resourceVersion] assms(2)
    by auto
  have conflict: "GetResourceVersion project \<noteq> resourceVersion \<longrightarrow>
      fst ?r = Some (StatusError StatusReasonConflict) \<and> objects (snd ?r) = objects s"
    by (simp add: call)
  have committed: "GetResourceVersion project = resourceVersion \<longrightarrow>
      fst ?r = None
      \<and> (\<exists>project'.
            objects (snd ?r) = AList.update projectName project' (objects s)
            \<and> (\<exists>ds'. extractDestinations project' = Inr ds' \<and> elems ds' = elems destinations)
            \<and> GetResourceVersion project' = nextVersion resourceVersion
            \<and> (\<forall>k. k \<noteq> ''spec'' \<and> k \<noteq> ''metadata'' \<longrightarrow> map_of project' k = map_of project k)
            \<and> (\<forall>k. k \<noteq> ''destinations'' \<longrightarrow>
                  map_of (fieldsOf (map_of project' ''spec'')) k =
                  map_of (fieldsOf (map_of project ''spec'')) k)
            \<and> (\<forall>k. k \<noteq> ''resourceVersion'' \<longrightarrow>
                  map_of (fieldsOf (map_of project' ''metadata'')) k =
                  map_of (fieldsOf (map_of project ''metadata'')) k))"
  proof
    assume eq: "GetResourceVersion project = resourceVersion"
    then have "fst ?r = None" and "objects (snd ?r) = AList.update projectName project' (objects s)"
      by (simp_all add: call)
    moreover have "GetResourceVersion project' = nextVersion resourceVersion"
      using v eq by simp
    ultimately show "fst ?r = None
      \<and> (\<exists>project'.
            objects (snd ?r) = AList.update projectName project' (objects s)
            \<and> (\<exists>ds'. extractDestinations project' = Inr ds' \<and> elems ds' = elems destinations)
            \<and> GetResourceVersion project' = nextVersion resourceVersion
            \<and> (\<forall>k. k \<noteq> ''spec'' \<and> k \<noteq> ''metadata'' \<longrightarrow> map_of project' k = map_of project k)
            \<and> (\<forall>k. k \<noteq> ''destinations'' \<longrightarrow>
                  map_of (fieldsOf (map_of project' ''spec'')) k =
                  map_of (fieldsOf (map_of project ''spec'')) k)
            \<and> (\<forall>k. k \<noteq> ''resourceVersion'' \<longrightarrow>
                  map_of (fieldsOf (map_of project' ''metadata'')) k =
                  map_of (fieldsOf (map_of project ''metadata'')) k))"
      using ex rest spec_frame meta_frame by blast
  qed
  from sent conflict committed show ?thesis by blast
qed

theorem patchDestinations_overwrites_witness:
  "Get CtxActive ''R'' exampleCluster = Inr exampleProject
   \<and> patchErr exampleCluster ''R'' = None
   \<and> GetResourceVersion exampleProject = ''v1''
   \<and> fst (patchDestinations CtxActive ''R''
            (Slice [\<lparr>Server = ''b'', Namespace = ''ns2'', Name = []\<rparr>]) ''v1'' exampleCluster) = None
   \<and> (\<exists>project'.
         objects (snd (patchDestinations CtxActive ''R''
            (Slice [\<lparr>Server = ''b'', Namespace = ''ns2'', Name = []\<rparr>]) ''v1'' exampleCluster)) =
           AList.update ''R'' project' (objects exampleCluster)
         \<and> (\<exists>ds'. extractDestinations project' = Inr ds'
                \<and> elems ds' = [\<lparr>Server = ''b'', Namespace = ''ns2'', Name = []\<rparr>])
         \<and> map_of (fieldsOf (map_of project' ''spec'')) ''description'' = Some (JString ''demo''))
   \<and> fst (patchDestinations CtxActive ''R''
            (Slice [\<lparr>Server = ''b'', Namespace = ''ns2'', Name = []\<rparr>]) ''v0'' exampleCluster) =
       Some (StatusError StatusReasonConflict)"
proof -
  let ?ds = "Slice [\<lparr>Server = ''b'', Namespace = ''ns2'', Name = []\<rparr>]"
  have g: "Get CtxActive ''R'' exampleCluster = Inr exampleProject"
    by (simp add: Get_def exampleCluster_def)
  have p: "patchErr exampleCluster ''R'' = None"
    by (simp add: exampleCluster_def)
  have v: "GetResourceVersion exampleProject = ''v1''"
    by (simp add: exampleProject_def GetResourceVersion_def getNestedString_def NestedString_def)
  have d: "map_of (fieldsOf (map_of exampleProject ''spec'')) ''description'' = Some (JString ''demo'')"
    by (simp add: exampleProject_def fieldsOf_def)
  from patchDestinations_overwrites [OF g p, of ?ds "''v1''"] v
  obtain project' where
    ok: "fst (patchDestinations CtxActive ''R'' ?ds ''v1'' exampleCluster) = None"
    and upd: "objects (snd (patchDestinations CtxActive ''R'' ?ds ''v1'' exampleCluster)) =
           AList.update ''R'' project' (objects exampleCluster)"
    and ex: "\<exists>ds'. extractDestinations project' = Inr ds' \<and> elems ds' = elems ?ds"
    and frame: "\<forall>k. k \<noteq> ''destinations'' \<longrightarrow>
          map_of (fieldsOf (map_of project' ''spec'')) k =
          map_of (fieldsOf (map_of exampleProject ''spec'')) k"
    by auto
  from frame d have d': "map_of (fieldsOf (map_of project' ''spec'')) ''description'' = Some (JString ''demo'')"
    by simp
  have stale: "fst (patchDestinations CtxActive ''R'' ?ds ''v0'' exampleCluster) =
       Some (StatusError StatusReasonConflict)"
    using patchDestinations_overwrites [OF g p, of ?ds "''v0''"] v by simp
  from ex have ex': "\<exists>ds'. extractDestinations project' = Inr ds'
      \<and> elems ds' = [\<lparr>Server = ''b'', Namespace = ''ns2'', Name = []\<rparr>]"
    by simp
  from g p v ok upd ex' d' stale show ?thesis by blast
qed

section \<open>Idempotency\<close>

lemma patch_then_fetch:
  assumes "GetDestinations ctx n s = Inr (ds, rv)"
    and "patchDestinations ctx n new rv s = (None, s1)"
  shows "\<exists>ds'. GetDestinations ctx n s1 = Inr (ds', nextVersion rv) \<and> elems ds' = elems new"
proof -
  from assms(1) obtain obj where g: "Get ctx n s = Inr obj" and rv: "rv = GetResourceVersion obj"
    by (auto simp: GetDestinations_Inr)
  from g have ctx: "ctxErr ctx = None" and ge: "getErr s n = None"
    by (simp_all add: Get_Inr)
  obtain obj' where
    call: "patchDestinations ctx n new rv s =
       (case patchErr s n of
          Some err \<Rightarrow>
            (Some err,
             s\<lparr>patches := patches s @
                 [\<lparr>patchName = n, patchType = MergePatchType, patchData = patchDocument new rv\<rparr>]\<rparr>)
        | None \<Rightarrow>
            (if GetResourceVersion obj \<noteq> rv
             then (Some (StatusError StatusReasonConflict),
                   s\<lparr>patches := patches s @
                       [\<lparr>patchName = n, patchType = MergePatchType, patchData = patchDocument new rv\<rparr>]\<rparr>)
             else (None,
                   s\<lparr>patches := patches s @
                       [\<lparr>patchName = n, patchType = MergePatchType, patchData = patchDocument new rv\<rparr>],
                     objects := AList.update n obj' (objects s)\<rparr>)))"
    and v: "GetResourceVersion obj' = nextVersion (GetResourceVersion obj)"
    and ex: "\<exists>ds'. extractDestinations obj' = Inr ds' \<and> elems ds' = elems new"
    using patchDestinations_result [OF g, of new rv] by blast
  from call assms(2) rv have s1: "s1 =
      s\<lparr>patches := patches s @
          [\<lparr>patchName = n, patchType = MergePatchType, patchData = patchDocument new rv\<rparr>],
        objects := AList.update n obj' (objects s)\<rparr>"
    by (auto split: option.splits)
  have "Get ctx n s1 = Inr obj'"
    using ctx ge by (simp add: Get_Inr s1 update_conv')
  with v ex rv show ?thesis
    by (auto simp: GetDestinations_Inr)
qed

lemma AddDestination_again:
  assumes "AddDestination ctx n dest s = (None, s1)"
  shows "AddDestination ctx n dest s1 = (None, s1)"
proof -
  from assms obtain ds rv where g: "GetDestinations ctx n s = Inr (ds, rv)"
    by (auto simp: AddDestination_def split: sum.splits)
  show ?thesis
  proof (cases "alreadyExists (elems ds) dest")
    case True
    with g assms have "s1 = s" by (simp add: AddDestination_def)
    with assms show ?thesis by simp
  next
    case False
    with g assms have "patchDestinations ctx n (append_slice ds dest) rv s = (None, s1)"
      by (simp add: AddDestination_def)
    from patch_then_fetch [OF g this] obtain ds'
      where g': "GetDestinations ctx n s1 = Inr (ds', nextVersion rv)"
        and e: "elems ds' = elems ds @ [dest]"
      by (auto simp: append_slice_def)
    have "alreadyExists (elems ds') dest"
      by (simp add: e alreadyExists_iff destinationsEqual_iff)
    with g' show ?thesis by (simp add: AddDestination_def)
  qed
qed

lemma RemoveDestination_again:
  assumes "RemoveDestination ctx n dest s = (None, s1)"
  shows "RemoveDestination ctx n dest s1 = (None, s1)"
proof -
  from assms obtain ds rv where g: "GetDestinations ctx n s = Inr (ds, rv)"
    by (auto simp: RemoveDestination_def split: sum.splits)
  let ?kept = "filter (\<lambda>e. \<not> destinationsEqual e dest) (elems ds)"
  let ?new = "if ?kept = [] then NilSlice else Slice ?kept"
  have loop: "removeLoop (elems ds) dest (NilSlice, False) =
      (?new, \<exists>e \<in> set (elems ds). destinationsEqual e dest)"
    by (simp add: removeLoop_filter)
  show ?thesis
  proof (cases "\<exists>e \<in> set (elems ds). destinationsEqual e dest")
    case False
    with g assms loop have "s1 = s" by (simp add: RemoveDestination_def)
    with assms show ?thesis by simp
  next
    case True
    with g assms loop have "patchDestinations ctx n ?new rv s = (None, s1)"
      by (simp add: RemoveDestination_def)
    from patch_then_fetch [OF g this] obtain ds'
      where g': "GetDestinations ctx n s1 = Inr (ds', nextVersion rv)"
        and e: "elems ds' = ?kept"
      by (auto split: if_splits)
    have "removeLoop (elems ds') dest (NilSlice, False) =
        ((if ?kept = [] then NilSlice else Slice ?kept), False)"
      by (simp add: removeLoop_filter e)
    with g' show ?thesis by (simp add: RemoveDestination_def)
  qed
qed

lemma funpow_fixed: "f x = x \<Longrightarrow> (f ^^ k) x = x"
  by (induction k) simp_all

text \<open>
  Claim C1. A result \<open>(None, s)\<close> is a return without an error that leaves the store
  \<open>s\<close> as it was, the list of patches sent included. When a fetched destination is
  equal to \<open>dest\<close>, \<^verbatim>\<open>AddDestination\<close> returns so. After an Add that returned without
  an error, and after a Remove that did, the same call on the store it left returns
  without an error and leaves that store as it is, and so does every further
  repetition: no patch is sent and no record changes.
\<close>

theorem AddDestination_idempotent:
  "(GetDestinations ctx projectName s = Inr (destinations, resourceVersion)
      \<and> (\<exists>existing \<in> set (elems destinations). destinationsEqual existing dest)
     \<longrightarrow> AddDestination ctx projectName dest s = (None, s))
   \<and> (AddDestination ctx projectName dest s = (None, s1) \<longrightarrow>
        AddDestination ctx projectName dest s1 = (None, s1)
        \<and> (\<forall>k. ((\<lambda>t. snd (AddDestination ctx projectName dest t)) ^^ k) s1 = s1))
   \<and> (RemoveDestination ctx projectName dest s = (None, s2) \<longrightarrow>
        RemoveDestination ctx projectName dest s2 = (None, s2)
        \<and> (\<forall>k. ((\<lambda>t. snd (RemoveDestination ctx projectName dest t)) ^^ k) s2 = s2))"
proof (intro conjI impI allI)
  assume "GetDestinations ctx projectName s = Inr (destinations, resourceVersion)
      \<and> (\<exists>existing \<in> set (elems destinations). destinationsEqual existing dest)"
  then show "AddDestination ctx projectName dest s = (None, s)"
    by (simp add: AddDestination_def alreadyExists_iff)
next
  assume "AddDestination ctx projectName dest s = (None, s1)"
  then show "AddDestination ctx projectName dest s1 = (None, s1)"
    by (rule AddDestination_again)
next
  fix k
  assume "AddDestination ctx projectName dest s = (None, s1)"
  then have "AddDestination ctx projectName dest s1 = (None, s1)"
    by (rule AddDestination_again)
  then have "snd (AddDestination ctx projectName dest s1) = s1" by simp
  then show "((\<lambda>t. snd (AddDestination ctx projectName dest t)) ^^ k) s1 = s1"
    by (rule funpow_fixed)
next
  assume "RemoveDestination ctx projectName dest s = (None, s2)"
  then show "RemoveDestination ctx projectName dest s2 = (None, s2)"
    by (rule RemoveDestination_again)
next
  fix k
  assume "RemoveDestination ctx projectName dest s = (None, s2)"
  then have "RemoveDestination ctx projectName dest s2 = (None, s2)"
    by (rule RemoveDestination_again)
  then have "snd (RemoveDestination ctx projectName dest s2) = s2" by simp
  then show "((\<lambda>t. snd (RemoveDestination ctx projectName dest t)) ^^ k) s2 = s2"
    by (rule funpow_fixed)
qed

lemma example_Add_b:
  "fst (AddDestination CtxActive ''R''
          \<lparr>Server = ''b'', Namespace = ''ns2'', Name = []\<rparr> exampleCluster) = None"
  by (simp add: example_defs eval_defs)

lemma example_Remove_a:
  "fst (RemoveDestination CtxActive ''R''
          \<lparr>Server = ''a'', Namespace = ''ns1'', Name = []\<rparr> exampleCluster) = None"
  by (simp add: example_defs eval_defs)

theorem AddDestination_idempotent_witness:
  "GetDestinations CtxActive ''R'' exampleCluster =
     Inr (Slice [\<lparr>Server = ''a'', Namespace = ''ns1'', Name = []\<rparr>], ''v1'')
   \<and> AddDestination CtxActive ''R'' \<lparr>Server = ''a'', Namespace = ''ns1'', Name = []\<rparr> exampleCluster =
       (None, exampleCluster)
   \<and> fst (AddDestination CtxActive ''R''
          \<lparr>Server = ''b'', Namespace = ''ns2'', Name = []\<rparr> exampleCluster) = None
   \<and> AddDestination CtxActive ''R'' \<lparr>Server = ''b'', Namespace = ''ns2'', Name = []\<rparr>
        (snd (AddDestination CtxActive ''R''
          \<lparr>Server = ''b'', Namespace = ''ns2'', Name = []\<rparr> exampleCluster)) =
       (None, snd (AddDestination CtxActive ''R''
          \<lparr>Server = ''b'', Namespace = ''ns2'', Name = []\<rparr> exampleCluster))
   \<and> fst (RemoveDestination CtxActive ''R''
          \<lparr>Server = ''a'', Namespace = ''ns1'', Name = []\<rparr> exampleCluster) = None
   \<and> RemoveDestination CtxActive ''R'' \<lparr>Server = ''a'', Namespace = ''ns1'', Name = []\<rparr>
        (snd (RemoveDestination CtxActive ''R''
          \<lparr>Server = ''a'', Namespace = ''ns1'', Name = []\<rparr> exampleCluster)) =
       (None, snd (RemoveDestination CtxActive ''R''
          \<lparr>Server = ''a'', Namespace = ''ns1'', Name = []\<rparr> exampleCluster))"
proof -
  let ?a = "\<lparr>Server = ''a'', Namespace = ''ns1'', Name = []\<rparr>"
  let ?b = "\<lparr>Server = ''b'', Namespace = ''ns2'', Name = []\<rparr>"
  let ?s1 = "snd (AddDestination CtxActive ''R'' ?b exampleCluster)"
  let ?s2 = "snd (RemoveDestination CtxActive ''R'' ?a exampleCluster)"
  note inst = AddDestination_idempotent
    [of CtxActive "''R''" exampleCluster "Slice [?a]" "''v1''" ?a ?s1 ?s2]
  have g: "GetDestinations CtxActive ''R'' exampleCluster = Inr (Slice [?a], ''v1'')"
    by (rule example_GetDestinations_R)
  have present: "\<exists>existing \<in> set (elems (Slice [?a])). destinationsEqual existing ?a"
    by (simp add: destinationsEqual_def)
  have noop: "AddDestination CtxActive ''R'' ?a exampleCluster = (None, exampleCluster)"
    using inst g present by blast
  have add1: "fst (AddDestination CtxActive ''R'' ?b exampleCluster) = None"
    by (rule example_Add_b)
  then have add1': "AddDestination CtxActive ''R'' ?b exampleCluster = (None, ?s1)"
    by (simp add: prod_eq_iff)
  have add2: "AddDestination CtxActive ''R'' ?b ?s1 = (None, ?s1)"
    using AddDestination_idempotent
      [of CtxActive "''R''" exampleCluster "Slice [?a]" "''v1''" ?b ?s1 ?s2] add1'
    by blast
  have rem1: "fst (RemoveDestination CtxActive ''R'' ?a exampleCluster) = None"
    by (rule example_Remove_a)
  then have rem1': "RemoveDestination CtxActive ''R'' ?a exampleCluster = (None, ?s2)"
    by (simp add: prod_eq_iff)
  have rem2: "RemoveDestination CtxActive ''R'' ?a ?s2 = (None, ?s2)"
    using inst rem1' by blast
  from g noop add1 add2 rem1 rem2 show ?thesis by blast
qed

section \<open>Reading the destinations of a record\<close>

lemma extractDestinations_cases:
  "extractDestinations project =
     (case map_of project ''spec'' of
        None \<Rightarrow> Inr (Slice [])
      | Some (JObject spec) \<Rightarrow>
          (case map_of spec ''destinations'' of
             None \<Rightarrow> Inr (Slice [])
           | Some (JArray destinationsRaw) \<Rightarrow> Inr (extractLoop destinationsRaw NilSlice)
           | Some v \<Rightarrow> Inl (Errorf ''failed to get destinations'' (AccessorError [''destinations''])))
      | Some v \<Rightarrow> Inl (Errorf ''failed to get spec'' (AccessorError [''spec''])))"
  by (simp add: extractDestinations_def NestedMap_def NestedSlice_def
      split: option.splits json.splits)

text \<open>
  Claim C4, as the code has it. A record without a \<open>spec\<close>, and a record whose
  \<open>spec\<close> is an object without a \<open>destinations\<close> field, are fetched as the empty
  sequence with the record's version token. A \<open>spec\<close> that is there and not an object,
  and a \<open>destinations\<close> field that is there and not a list (\<^verbatim>\<open>null\<close> included), make
  the fetch fail with the accessor's error, wrapped. A \<open>destinations\<close> field that is
  a list is read element by element.
\<close>

theorem GetDestinations_missing_or_malformed:
  assumes "Get ctx projectName s = Inr project"
  shows "(map_of project ''spec'' = None \<longrightarrow>
            GetDestinations ctx projectName s = Inr (Slice [], GetResourceVersion project))
       \<and> (\<forall>spec. map_of project ''spec'' = Some (JObject spec)
              \<and> map_of spec ''destinations'' = None \<longrightarrow>
            GetDestinations ctx projectName s = Inr (Slice [], GetResourceVersion project))
       \<and> (\<forall>v. map_of project ''spec'' = Some v \<and> (\<forall>spec. v \<noteq> JObject spec) \<longrightarrow>
            GetDestinations ctx projectName s =
              Inl (Errorf ''failed to get spec'' (AccessorError [''spec''])))
       \<and> (\<forall>spec v. map_of project ''spec'' = Some (JObject spec)
              \<and> map_of spec ''destinations'' = Some v \<and> (\<forall>raw. v \<noteq> JArray raw) \<longrightarrow>
            GetDestinations ctx projectName s =
              Inl (Errorf ''failed to get destinations'' (AccessorError [''destinations''])))
       \<and> (\<forall>spec raw. map_of project ''spec'' = Some (JObject spec)
              \<and> map_of spec ''destinations'' = Some (JArray raw) \<longrightarrow>
            GetDestinations ctx projectName s =
              Inr (extractLoop raw NilSlice, GetResourceVersion project))"
proof -
  have g: "GetDestinations ctx projectName s =
      (case extractDestinations project of
         Inl err \<Rightarrow> Inl err
       | Inr destinations \<Rightarrow> Inr (destinations, GetResourceVersion project))"
    using assms by (simp add: GetDestinations_def)
  have 1: "map_of project ''spec'' = None \<longrightarrow>
            GetDestinations ctx projectName s = Inr (Slice [], GetResourceVersion project)"
    by (simp add: g extractDestinations_cases)
  have 2: "\<forall>spec. map_of project ''spec'' = Some (JObject spec)
              \<and> map_of spec ''destinations'' = None \<longrightarrow>
            GetDestinations ctx projectName s = Inr (Slice [], GetResourceVersion project)"
    by (simp add: g extractDestinations_cases)
  have 3: "\<forall>v. map_of project ''spec'' = Some v \<and> (\<forall>spec. v \<noteq> JObject spec) \<longrightarrow>
            GetDestinations ctx projectName s =
              Inl (Errorf ''failed to get spec'' (AccessorError [''spec'']))"
    by (auto simp: g extractDestinations_cases split: json.splits)
  have 4: "\<forall>spec v. map_of project ''spec'' = Some (JObject spec)
              \<and> map_of spec ''destinations'' = Some v \<and> (\<forall>raw. v \<noteq> JArray raw) \<longrightarrow>
            GetDestinations ctx projectName s =
              Inl (Errorf ''failed to get destinations'' (AccessorError [''destinations'']))"
    by (auto simp: g extractDestinations_cases split: json.splits)
  have 5: "\<forall>spec raw. map_of project ''spec'' = Some (JObject spec)
              \<and> map_of spec ''destinations'' = Some (JArray raw) \<longrightarrow>
            GetDestinations ctx projectName s =
              Inr (extractLoop raw NilSlice, GetResourceVersion project)"
    by (simp add: g extractDestinations_cases)
  from 1 2 3 4 5 show ?thesis by blast
qed

theorem GetDestinations_missing_or_malformed_witness:
  "Get CtxActive ''M'' (exampleCluster\<lparr>objects := [(''M'', [])]\<rparr>) = Inr []
   \<and> GetDestinations CtxActive ''M'' (exampleCluster\<lparr>objects := [(''M'', [])]\<rparr>) = Inr (Slice [], [])
   \<and> Get CtxActive ''M'' (exampleCluster\<lparr>objects := [(''M'', [(''spec'', JObject [])])]\<rparr>) =
       Inr [(''spec'', JObject [])]
   \<and> GetDestinations CtxActive ''M'' (exampleCluster\<lparr>objects := [(''M'', [(''spec'', JObject [])])]\<rparr>) =
       Inr (Slice [], [])
   \<and> Get CtxActive ''M'' (exampleCluster\<lparr>objects := [(''M'', [(''spec'', JNull)])]\<rparr>) =
       Inr [(''spec'', JNull)]
   \<and> GetDestinations CtxActive ''M'' (exampleCluster\<lparr>objects := [(''M'', [(''spec'', JNull)])]\<rparr>) =
       Inl (Errorf ''failed to get spec'' (AccessorError [''spec'']))
   \<and> Get CtxActive ''M''
        (exampleCluster\<lparr>objects := [(''M'', [(''spec'', JObject [(''destinations'', JString ''none'')])])]\<rparr>) =
       Inr [(''spec'', JObject [(''destinations'', JString ''none'')])]
   \<and> GetDestinations CtxActive ''M''
        (exampleCluster\<lparr>objects := [(''M'', [(''spec'', JObject [(''destinations'', JString ''none'')])])]\<rparr>) =
       Inl (Errorf ''failed to get destinations'' (AccessorError [''destinations'']))"
proof -
  let ?c = "\<lambda>obj. exampleCluster\<lparr>objects := [(''M'', obj)]\<rparr>"
  have g: "Get CtxActive ''M'' (?c obj) = Inr obj" for obj
    by (simp add: Get_def exampleCluster_def)
  have rv: "GetResourceVersion [] = []" "GetResourceVersion [(''spec'', JObject [])] = []"
    by (simp_all add: GetResourceVersion_def getNestedString_def NestedString_def)
  have 1: "GetDestinations CtxActive ''M'' (?c []) = Inr (Slice [], [])"
    using GetDestinations_missing_or_malformed [OF g [of "[]"]] rv by simp
  have 2: "GetDestinations CtxActive ''M'' (?c [(''spec'', JObject [])]) = Inr (Slice [], [])"
    using GetDestinations_missing_or_malformed [OF g [of "[(''spec'', JObject [])]"]] rv by simp
  have 3: "GetDestinations CtxActive ''M'' (?c [(''spec'', JNull)]) =
       Inl (Errorf ''failed to get spec'' (AccessorError [''spec'']))"
    using GetDestinations_missing_or_malformed [OF g [of "[(''spec'', JNull)]"]] by simp
  have 4: "GetDestinations CtxActive ''M''
        (?c [(''spec'', JObject [(''destinations'', JString ''none'')])]) =
       Inl (Errorf ''failed to get destinations'' (AccessorError [''destinations'']))"
    using GetDestinations_missing_or_malformed
      [OF g [of "[(''spec'', JObject [(''destinations'', JString ''none'')])]"]] by simp
  from g 1 2 3 4 show ?thesis by simp
qed

text \<open>
  The claim as the specification words it fails: a \<open>destinations\<close> field of the wrong
  shape, here a string, makes the fetch return an error and not the empty sequence.
\<close>

theorem GetDestinations_malformed_counterexample:
  "GetDestinations CtxActive ''M''
     \<lparr>objects =
        [(''M'', [(''metadata'', JObject [(''name'', JString ''M''), (''resourceVersion'', JString ''3'')]),
                  (''spec'', JObject [(''destinations'', JString ''none'')])])],
      getErr = (\<lambda>name. None), listErr = None, patchErr = (\<lambda>name. None), patches = []\<rparr>
   = Inl (Errorf ''failed to get destinations'' (AccessorError [''destinations'']))"
  by (simp add: eval_defs)

text \<open>
  Claim C6. The loop over the raw list tests one thing of an element: whether it is
  an object. Every element that is not one is skipped; every element that is one gives
  one destination, in the order of the list (\<open>List.map_filter\<close> keeps the order), so
  the sequence is as long as the list has objects. A field of the destination is the
  element's field when that is a string, and the empty string when the field is
  missing or of another type.
\<close>

theorem extractDestinations_skips_malformed:
  assumes "map_of project ''spec'' = Some (JObject spec)"
    and "map_of spec ''destinations'' = Some (JArray destinationsRaw)"
  shows "\<exists>destinations.
           extractDestinations project = Inr destinations
           \<and> elems destinations =
               List.map_filter
                 (\<lambda>d. case d of JObject destMap \<Rightarrow> Some (destinationOfMap destMap) | _ \<Rightarrow> None)
                 destinationsRaw
           \<and> len destinations =
               length (filter (\<lambda>d. case d of JObject destMap \<Rightarrow> True | _ \<Rightarrow> False) destinationsRaw)
           \<and> (\<forall>destMap. JObject destMap \<in> set destinationsRaw \<longrightarrow>
                 Server (destinationOfMap destMap) =
                   (case map_of destMap ''server'' of Some (JString x) \<Rightarrow> x | _ \<Rightarrow> [])
                 \<and> Namespace (destinationOfMap destMap) =
                   (case map_of destMap ''namespace'' of Some (JString x) \<Rightarrow> x | _ \<Rightarrow> [])
                 \<and> Name (destinationOfMap destMap) =
                   (case map_of destMap ''name'' of Some (JString x) \<Rightarrow> x | _ \<Rightarrow> []))"
proof -
  let ?f = "\<lambda>d. case d of JObject destMap \<Rightarrow> Some (destinationOfMap destMap) | _ \<Rightarrow> None"
  let ?isObj = "\<lambda>d. case d of JObject destMap \<Rightarrow> True | _ \<Rightarrow> False"
  have loop: "elems (extractLoop raw acc) = elems acc @ List.map_filter ?f raw" for raw acc
    by (induction raw acc rule: extractLoop.induct)
       (simp_all add: map_filter_simps append_slice_def)
  have count: "length (List.map_filter ?f raw) = length (filter ?isObj raw)" for raw
    by (induction raw) (simp_all add: map_filter_simps split: json.splits)
  have fields: "Server (destinationOfMap destMap) =
                   (case map_of destMap ''server'' of Some (JString x) \<Rightarrow> x | _ \<Rightarrow> [])
                 \<and> Namespace (destinationOfMap destMap) =
                   (case map_of destMap ''namespace'' of Some (JString x) \<Rightarrow> x | _ \<Rightarrow> [])
                 \<and> Name (destinationOfMap destMap) =
                   (case map_of destMap ''name'' of Some (JString x) \<Rightarrow> x | _ \<Rightarrow> [])" for destMap
    by (simp add: destinationOfMap_def split: option.splits json.splits)
  have "extractDestinations project = Inr (extractLoop destinationsRaw NilSlice)"
    using assms by (simp add: extractDestinations_cases)
  moreover have "elems (extractLoop destinationsRaw NilSlice) = List.map_filter ?f destinationsRaw"
    by (simp add: loop)
  moreover have "len (extractLoop destinationsRaw NilSlice) = length (filter ?isObj destinationsRaw)"
    by (simp add: len_def loop count)
  ultimately show ?thesis
    using fields by blast
qed

theorem extractDestinations_skips_malformed_witness:
  "extractDestinations
     [(''spec'', JObject [(''destinations'',
        JArray [JString ''junk'',
                JObject [(''server'', JString ''a''), (''namespace'', JString ''ns1'')],
                JNull,
                JArray [],
                JObject [(''server'', JNumber 5), (''name'', JString ''n'')],
                JNumber 7])])]
   = Inr (Slice [\<lparr>Server = ''a'', Namespace = ''ns1'', Name = []\<rparr>,
                 \<lparr>Server = [], Namespace = [], Name = ''n''\<rparr>])"
proof -
  let ?raw = "[JString ''junk'',
                JObject [(''server'', JString ''a''), (''namespace'', JString ''ns1'')],
                JNull,
                JArray [],
                JObject [(''server'', JNumber 5), (''name'', JString ''n'')],
                JNumber 7]"
  let ?spec = "[(''destinations'', JArray ?raw)]"
  let ?project = "[(''spec'', JObject ?spec)]"
  have a: "map_of ?project ''spec'' = Some (JObject ?spec)" by simp
  have b: "map_of ?spec ''destinations'' = Some (JArray ?raw)" by simp
  from extractDestinations_skips_malformed [OF a b]
  obtain destinations where e: "extractDestinations ?project = Inr destinations"
    and l: "elems destinations =
      [\<lparr>Server = ''a'', Namespace = ''ns1'', Name = []\<rparr>, \<lparr>Server = [], Namespace = [], Name = ''n''\<rparr>]"
    by (auto simp: map_filter_simps destinationOfMap_def)
  from l have "destinations =
      Slice [\<lparr>Server = ''a'', Namespace = ''ns1'', Name = []\<rparr>, \<lparr>Server = [], Namespace = [], Name = ''n''\<rparr>]"
    by (cases destinations) simp_all
  with e show ?thesis by simp
qed

section \<open>Listing projects\<close>

text \<open>The summary the loop of \<^verbatim>\<open>ListProjects\<close> appends for one item, read off the
  loop's result.\<close>

lemma listLoop_elems:
  "elems (listLoop items projects) =
     elems projects @
     map (\<lambda>item.
            \<lparr>ProjectName = GetName item,
             DestinationCount =
               int (len (case extractDestinations item of
                           Inl err \<Rightarrow> Slice []
                         | Inr ds \<Rightarrow> if ds = NilSlice then Slice [] else ds)),
             Destinations =
               (case extractDestinations item of
                  Inl err \<Rightarrow> Slice []
                | Inr ds \<Rightarrow> if ds = NilSlice then Slice [] else ds)\<rparr>)
         items"
proof (induction items arbitrary: projects)
  case Nil
  then show ?case by simp
next
  case (Cons item items)
  show ?case
    by (cases "extractDestinations item") (simp_all add: Cons.IH Let_def append_slice_def)
qed

text \<open>
  Claim C10. In the list a successful \<^verbatim>\<open>ListProjects\<close> returns there is one summary
  per record of the store, in the store's order. Each summary's count is the length of
  its destinations, and its destinations are never the nil slice. A record whose
  destinations cannot be extracted, and one with none, is summarised with the empty
  sequence and the count zero; any other record with the destinations extracted from
  it.
\<close>

theorem ListProjects_count:
  assumes "ListProjects ctx s = Inr projects"
  shows "length (elems projects) = length (objects s)
       \<and> (\<forall>p \<in> set (elems projects).
             DestinationCount p = int (len (Destinations p)) \<and> Destinations p \<noteq> NilSlice)
       \<and> (\<forall>i < length (objects s).
             ProjectName (elems projects ! i) = GetName (snd (objects s ! i))
             \<and> (case extractDestinations (snd (objects s ! i)) of
                  Inl err \<Rightarrow>
                    Destinations (elems projects ! i) = Slice []
                    \<and> DestinationCount (elems projects ! i) = 0
                | Inr ds \<Rightarrow>
                    elems (Destinations (elems projects ! i)) = elems ds
                    \<and> DestinationCount (elems projects ! i) = int (length (elems ds))))"
proof -
  let ?summary = "\<lambda>item.
            \<lparr>ProjectName = GetName item,
             DestinationCount =
               int (len (case extractDestinations item of
                           Inl err \<Rightarrow> Slice []
                         | Inr ds \<Rightarrow> if ds = NilSlice then Slice [] else ds)),
             Destinations =
               (case extractDestinations item of
                  Inl err \<Rightarrow> Slice []
                | Inr ds \<Rightarrow> if ds = NilSlice then Slice [] else ds)\<rparr>"
  from assms have "projects = listLoop (map snd (objects s)) NilSlice"
    by (auto simp: ListProjects_def List_def split: option.splits)
  then have ps: "elems projects = map ?summary (map snd (objects s))"
    by (simp add: listLoop_elems)
  have len: "length (elems projects) = length (objects s)"
    by (simp add: ps)
  have each: "DestinationCount (?summary item) = int (len (Destinations (?summary item)))
      \<and> Destinations (?summary item) \<noteq> NilSlice" for item
    by (simp split: sum.splits)
  have all: "\<forall>p \<in> set (elems projects).
      DestinationCount p = int (len (Destinations p)) \<and> Destinations p \<noteq> NilSlice"
    unfolding ps using each by auto
  have nth: "\<forall>i < length (objects s).
             ProjectName (elems projects ! i) = GetName (snd (objects s ! i))
             \<and> (case extractDestinations (snd (objects s ! i)) of
                  Inl err \<Rightarrow>
                    Destinations (elems projects ! i) = Slice []
                    \<and> DestinationCount (elems projects ! i) = 0
                | Inr ds \<Rightarrow>
                    elems (Destinations (elems projects ! i)) = elems ds
                    \<and> DestinationCount (elems projects ! i) = int (length (elems ds)))"
    by (auto simp: ps len_def split: sum.splits)
  from len all nth show ?thesis by blast
qed

theorem ListProjects_count_witness:
  "ListProjects CtxActive
     (exampleCluster\<lparr>objects :=
        [(''R'', exampleProject),
         (''E'', [(''metadata'', JObject [(''name'', JString ''E'')]),
                  (''spec'', JObject [(''destinations'', JArray [JString ''junk''])])]),
         (''B'', [(''metadata'', JObject [(''name'', JString ''B'')]),
                  (''spec'', JString ''broken'')])]\<rparr>)
   = Inr (Slice
       [\<lparr>ProjectName = ''R'', DestinationCount = 1,
          Destinations = Slice [\<lparr>Server = ''a'', Namespace = ''ns1'', Name = []\<rparr>]\<rparr>,
        \<lparr>ProjectName = ''E'', DestinationCount = 0, Destinations = Slice []\<rparr>,
        \<lparr>ProjectName = ''B'', DestinationCount = 0, Destinations = Slice []\<rparr>])
   \<and> DestinationCount \<lparr>ProjectName = ''E'', DestinationCount = 0, Destinations = Slice []\<rparr> =
       int (len (Destinations \<lparr>ProjectName = ''E'', DestinationCount = 0, Destinations = Slice []\<rparr>))
   \<and> Destinations \<lparr>ProjectName = ''E'', DestinationCount = 0, Destinations = Slice []\<rparr> \<noteq> NilSlice"
proof -
  let ?s = "exampleCluster\<lparr>objects :=
        [(''R'', exampleProject),
         (''E'', [(''metadata'', JObject [(''name'', JString ''E'')]),
                  (''spec'', JObject [(''destinations'', JArray [JString ''junk''])])]),
         (''B'', [(''metadata'', JObject [(''name'', JString ''B'')]),
                  (''spec'', JString ''broken'')])]\<rparr>"
  let ?e = "\<lparr>ProjectName = ''E'', DestinationCount = 0, Destinations = Slice []\<rparr>"
  let ?ps = "Slice
       [\<lparr>ProjectName = ''R'', DestinationCount = 1,
          Destinations = Slice [\<lparr>Server = ''a'', Namespace = ''ns1'', Name = []\<rparr>]\<rparr>,
        ?e,
        \<lparr>ProjectName = ''B'', DestinationCount = 0, Destinations = Slice []\<rparr>]"
  have l: "ListProjects CtxActive ?s = Inr ?ps"
    by (simp add: ListProjects_def List_def exampleCluster_def exampleProject_def
        extractDestinations_def NestedMap_def NestedSlice_def NestedString_def GetName_def
        getNestedString_def destinationOfMap_def append_slice_def len_def Let_def)
  from ListProjects_count [OF l]
  have all: "\<forall>p \<in> set (elems ?ps).
         DestinationCount p = int (len (Destinations p)) \<and> Destinations p \<noteq> NilSlice"
    by blast
  have "?e \<in> set (elems ?ps)" by simp
  with all have "DestinationCount ?e = int (len (Destinations ?e)) \<and> Destinations ?e \<noteq> NilSlice"
    by blast
  with l show ?thesis by blast
qed

section \<open>What the caller can tell from the returned value\<close>

lemma patchDestinations_commits:
  assumes "GetDestinations ctx n s = Inr (ds, rv)" and "patchErr s n = None"
  shows "fst (patchDestinations ctx n new rv s) = None
       \<and> patches (snd (patchDestinations ctx n new rv s)) \<noteq> patches s
       \<and> (\<exists>ds'. GetDestinations ctx n (snd (patchDestinations ctx n new rv s)) =
                   Inr (ds', nextVersion rv) \<and> elems ds' = elems new)"
proof -
  from assms(1) obtain obj where g: "Get ctx n s = Inr obj" and rv: "rv = GetResourceVersion obj"
    by (auto simp: GetDestinations_Inr)
  obtain obj' where
    call: "patchDestinations ctx n new rv s =
       (case patchErr s n of
          Some err \<Rightarrow>
            (Some err,
             s\<lparr>patches := patches s @
                 [\<lparr>patchName = n, patchType = MergePatchType, patchData = patchDocument new rv\<rparr>]\<rparr>)
        | None \<Rightarrow>
            (if GetResourceVersion obj \<noteq> rv
             then (Some (StatusError StatusReasonConflict),
                   s\<lparr>patches := patches s @
                       [\<lparr>patchName = n, patchType = MergePatchType, patchData = patchDocument new rv\<rparr>]\<rparr>)
             else (None,
                   s\<lparr>patches := patches s @
                       [\<lparr>patchName = n, patchType = MergePatchType, patchData = patchDocument new rv\<rparr>],
                     objects := AList.update n obj' (objects s)\<rparr>)))"
    using patchDestinations_result [OF g, of new rv] by blast
  have ok: "fst (patchDestinations ctx n new rv s) = None"
    unfolding call using assms(2) rv by simp
  then have eq: "patchDestinations ctx n new rv s = (None, snd (patchDestinations ctx n new rv s))"
    by (simp add: prod_eq_iff)
  have sent: "patches (snd (patchDestinations ctx n new rv s)) \<noteq> patches s"
    by (simp add: patchDestinations_def patches_Patch)
  have fetch: "\<exists>ds'. GetDestinations ctx n (snd (patchDestinations ctx n new rv s)) =
                   Inr (ds', nextVersion rv) \<and> elems ds' = elems new"
    using assms(1) eq by (rule patch_then_fetch)
  from ok sent fetch show ?thesis by simp
qed

text \<open>
  Claim C7, as the code has it. \<^verbatim>\<open>AddDestination\<close> and \<^verbatim>\<open>RemoveDestination\<close> return
  a Go \<^verbatim>\<open>error\<close> and nothing else. A failed fetch is returned as it is. After a fetch
  that succeeded: Add returns nil when the destination is already there, sending no
  patch, and otherwise returns what the patch returns, which is nil when the store
  commits it; Remove returns nil when the destination is not there, sending no patch,
  and otherwise what the patch returns. So nil is the value of a committed write and
  of a call that changed nothing alike; only failures have values of their own.
\<close>

theorem AddDestination_return_value:
  "(GetDestinations ctx projectName s = Inl err \<longrightarrow>
      AddDestination ctx projectName dest s = (Some err, s)
      \<and> RemoveDestination ctx projectName dest s = (Some err, s))
   \<and> (GetDestinations ctx projectName s = Inr (destinations, resourceVersion) \<longrightarrow>
        ((\<exists>existing \<in> set (elems destinations). destinationsEqual existing dest) \<longrightarrow>
           AddDestination ctx projectName dest s = (None, s)
           \<and> fst (RemoveDestination ctx projectName dest s) =
               fst (patchDestinations ctx projectName
                      (fst (removeLoop (elems destinations) dest (NilSlice, False)))
                      resourceVersion s)
           \<and> (patchErr s projectName = None \<longrightarrow>
                fst (RemoveDestination ctx projectName dest s) = None
                \<and> patches (snd (RemoveDestination ctx projectName dest s)) \<noteq> patches s
                \<and> (\<exists>ds'. GetDestinations ctx projectName
                            (snd (RemoveDestination ctx projectName dest s)) =
                            Inr (ds', nextVersion resourceVersion)
                          \<and> elems ds' =
                            filter (\<lambda>existing. \<not> destinationsEqual existing dest)
                              (elems destinations))))
        \<and> ((\<forall>existing \<in> set (elems destinations). \<not> destinationsEqual existing dest) \<longrightarrow>
           RemoveDestination ctx projectName dest s = (None, s)
           \<and> fst (AddDestination ctx projectName dest s) =
               fst (patchDestinations ctx projectName
                      (Slice (elems destinations @ [dest])) resourceVersion s)
           \<and> (patchErr s projectName = None \<longrightarrow>
                fst (AddDestination ctx projectName dest s) = None
                \<and> patches (snd (AddDestination ctx projectName dest s)) \<noteq> patches s
                \<and> (\<exists>ds'. GetDestinations ctx projectName
                            (snd (AddDestination ctx projectName dest s)) =
                            Inr (ds', nextVersion resourceVersion)
                          \<and> elems ds' = elems destinations @ [dest]))))"
proof (intro conjI impI)
  assume "GetDestinations ctx projectName s = Inl err"
  then show "AddDestination ctx projectName dest s = (Some err, s)"
    and "RemoveDestination ctx projectName dest s = (Some err, s)"
    by (simp_all add: AddDestination_def RemoveDestination_def)
next
  assume g: "GetDestinations ctx projectName s = Inr (destinations, resourceVersion)"
    and present: "\<exists>existing \<in> set (elems destinations). destinationsEqual existing dest"
  let ?new = "fst (removeLoop (elems destinations) dest (NilSlice, False))"
  show "AddDestination ctx projectName dest s = (None, s)"
    using g present by (simp add: AddDestination_def alreadyExists_iff)
  have found: "snd (removeLoop (elems destinations) dest (NilSlice, False))"
    using present by (simp add: removeLoop_filter)
  then have call: "RemoveDestination ctx projectName dest s =
      patchDestinations ctx projectName ?new resourceVersion s"
    using g by (simp add: RemoveDestination_def case_prod_beta)
  then show "fst (RemoveDestination ctx projectName dest s) =
      fst (patchDestinations ctx projectName ?new resourceVersion s)"
    by simp
  have new: "elems ?new = filter (\<lambda>existing. \<not> destinationsEqual existing dest) (elems destinations)"
    by (simp add: removeLoop_filter)
  {
    assume p: "patchErr s projectName = None"
    note c = patchDestinations_commits [OF g p, of ?new]
    from c show "fst (RemoveDestination ctx projectName dest s) = None"
      by (simp add: call)
    from c show "patches (snd (RemoveDestination ctx projectName dest s)) \<noteq> patches s"
      by (simp add: call)
    from c new show "\<exists>ds'. GetDestinations ctx projectName
                            (snd (RemoveDestination ctx projectName dest s)) =
                            Inr (ds', nextVersion resourceVersion)
                          \<and> elems ds' =
                            filter (\<lambda>existing. \<not> destinationsEqual existing dest)
                              (elems destinations)"
      by (simp add: call)
  }
next
  assume g: "GetDestinations ctx projectName s = Inr (destinations, resourceVersion)"
    and absent: "\<forall>existing \<in> set (elems destinations). \<not> destinationsEqual existing dest"
  let ?new = "Slice (elems destinations @ [dest])"
  have "\<not> snd (removeLoop (elems destinations) dest (NilSlice, False))"
    using absent by (simp add: removeLoop_filter)
  then show "RemoveDestination ctx projectName dest s = (None, s)"
    using g by (simp add: RemoveDestination_def case_prod_beta)
  have call: "AddDestination ctx projectName dest s =
      patchDestinations ctx projectName ?new resourceVersion s"
    using g absent by (simp add: AddDestination_def alreadyExists_iff append_slice_def)
  then show "fst (AddDestination ctx projectName dest s) =
      fst (patchDestinations ctx projectName ?new resourceVersion s)"
    by simp
  {
    assume p: "patchErr s projectName = None"
    note c = patchDestinations_commits [OF g p, of ?new]
    from c show "fst (AddDestination ctx projectName dest s) = None"
      by (simp add: call)
    from c show "patches (snd (AddDestination ctx projectName dest s)) \<noteq> patches s"
      by (simp add: call)
    from c show "\<exists>ds'. GetDestinations ctx projectName
                            (snd (AddDestination ctx projectName dest s)) =
                            Inr (ds', nextVersion resourceVersion)
                          \<and> elems ds' = elems destinations @ [dest]"
      by (simp add: call)
  }
qed

theorem AddDestination_return_value_witness:
  "GetDestinations CtxActive ''R'' exampleCluster =
     Inr (Slice [\<lparr>Server = ''a'', Namespace = ''ns1'', Name = []\<rparr>], ''v1'')
   \<and> patchErr exampleCluster ''R'' = None
   \<and> AddDestination CtxActive ''R'' \<lparr>Server = ''a'', Namespace = ''ns1'', Name = []\<rparr> exampleCluster =
       (None, exampleCluster)
   \<and> fst (RemoveDestination CtxActive ''R''
            \<lparr>Server = ''a'', Namespace = ''ns1'', Name = []\<rparr> exampleCluster) = None
   \<and> patches (snd (RemoveDestination CtxActive ''R''
            \<lparr>Server = ''a'', Namespace = ''ns1'', Name = []\<rparr> exampleCluster)) \<noteq> patches exampleCluster
   \<and> RemoveDestination CtxActive ''R'' \<lparr>Server = ''b'', Namespace = ''ns2'', Name = []\<rparr> exampleCluster =
       (None, exampleCluster)
   \<and> fst (AddDestination CtxActive ''R''
            \<lparr>Server = ''b'', Namespace = ''ns2'', Name = []\<rparr> exampleCluster) = None
   \<and> patches (snd (AddDestination CtxActive ''R''
            \<lparr>Server = ''b'', Namespace = ''ns2'', Name = []\<rparr> exampleCluster)) \<noteq> patches exampleCluster
   \<and> GetDestinations CtxCanceled ''R'' exampleCluster = Inl ContextCanceled
   \<and> AddDestination CtxCanceled ''R'' \<lparr>Server = ''b'', Namespace = ''ns2'', Name = []\<rparr> exampleCluster =
       (Some ContextCanceled, exampleCluster)"
proof -
  let ?a = "\<lparr>Server = ''a'', Namespace = ''ns1'', Name = []\<rparr>"
  let ?b = "\<lparr>Server = ''b'', Namespace = ''ns2'', Name = []\<rparr>"
  have g: "GetDestinations CtxActive ''R'' exampleCluster = Inr (Slice [?a], ''v1'')"
    by (rule example_GetDestinations_R)
  have p: "patchErr exampleCluster ''R'' = None"
    by (simp add: exampleCluster_def)
  have pa: "\<exists>existing \<in> set (elems (Slice [?a])). destinationsEqual existing ?a"
    by (simp add: destinationsEqual_def)
  have ab: "\<forall>existing \<in> set (elems (Slice [?a])). \<not> destinationsEqual existing ?b"
    by (simp add: destinationsEqual_def)
  have c: "GetDestinations CtxCanceled ''R'' exampleCluster = Inl ContextCanceled"
    by (simp add: GetDestinations_def Get_def)
  note ia = AddDestination_return_value
    [of CtxActive "''R''" exampleCluster ContextCanceled ?a "Slice [?a]" "''v1''"]
  note ib = AddDestination_return_value
    [of CtxActive "''R''" exampleCluster ContextCanceled ?b "Slice [?a]" "''v1''"]
  note ic = AddDestination_return_value
    [of CtxCanceled "''R''" exampleCluster ContextCanceled ?b "Slice [?a]" "''v1''"]
  have 1: "AddDestination CtxActive ''R'' ?a exampleCluster = (None, exampleCluster)"
    using ia g pa by blast
  have 2: "fst (RemoveDestination CtxActive ''R'' ?a exampleCluster) = None"
    using ia g pa p by blast
  have 3: "patches (snd (RemoveDestination CtxActive ''R'' ?a exampleCluster)) \<noteq> patches exampleCluster"
    using ia g pa p by blast
  have 4: "RemoveDestination CtxActive ''R'' ?b exampleCluster = (None, exampleCluster)"
    using ib g ab by blast
  have 5: "fst (AddDestination CtxActive ''R'' ?b exampleCluster) = None"
    using ib g ab p by blast
  have 6: "patches (snd (AddDestination CtxActive ''R'' ?b exampleCluster)) \<noteq> patches exampleCluster"
    using ib g ab p by blast
  have 7: "AddDestination CtxCanceled ''R'' ?b exampleCluster = (Some ContextCanceled, exampleCluster)"
    using ic c by blast
  from g p 1 2 3 4 5 6 c 7 show ?thesis by blast
qed

text \<open>
  The claim as the specification words it fails: on the example store, adding the
  destination that is there and adding one that is not return the same value, nil,
  though only the second sent a patch; and so do removing one that is there and one
  that is not.
\<close>

theorem AddDestination_return_value_counterexample:
  "fst (AddDestination CtxActive ''R'' \<lparr>Server = ''a'', Namespace = ''ns1'', Name = []\<rparr> exampleCluster) =
   fst (AddDestination CtxActive ''R'' \<lparr>Server = ''b'', Namespace = ''ns2'', Name = []\<rparr> exampleCluster)
   \<and> patches (snd (AddDestination CtxActive ''R''
         \<lparr>Server = ''a'', Namespace = ''ns1'', Name = []\<rparr> exampleCluster)) = []
   \<and> length (patches (snd (AddDestination CtxActive ''R''
         \<lparr>Server = ''b'', Namespace = ''ns2'', Name = []\<rparr> exampleCluster))) = 1
   \<and> fst (RemoveDestination CtxActive ''R'' \<lparr>Server = ''a'', Namespace = ''ns1'', Name = []\<rparr> exampleCluster) =
     fst (RemoveDestination CtxActive ''R'' \<lparr>Server = ''z'', Namespace = ''zz'', Name = []\<rparr> exampleCluster)
   \<and> length (patches (snd (RemoveDestination CtxActive ''R''
         \<lparr>Server = ''a'', Namespace = ''ns1'', Name = []\<rparr> exampleCluster))) = 1
   \<and> patches (snd (RemoveDestination CtxActive ''R''
         \<lparr>Server = ''z'', Namespace = ''zz'', Name = []\<rparr> exampleCluster)) = []"
  by (simp add: example_defs eval_defs)

section \<open>The audit trail\<close>

lemma Log_writes:
  "\<not> writeFails l \<Longrightarrow>
   Log now entry l = (None, l\<lparr>written := written l @ [entry\<lparr>Timestamp := now\<rparr>]\<rparr>)"
  by (simp add: Log_def)

lemma validateProjectName_status:
  "validateProjectName project = Some resp \<Longrightarrow> StatusCode resp = StatusBadRequest"
  by (auto simp: validateProjectName_def writeJSONError_def split: if_splits)

lemma validateDestinationRequest_status:
  "validateDestinationRequest req = Some resp \<Longrightarrow> StatusCode resp = StatusBadRequest"
  by (auto simp: validateDestinationRequest_def writeJSONError_def split: if_splits)

lemma validateDestinationRequest_byBody_status:
  "validateDestinationRequest_byBody req = Some resp \<Longrightarrow> StatusCode resp = StatusBadRequest"
  by (auto simp: validateDestinationRequest_byBody_def
      dest: validateProjectName_status validateDestinationRequest_status split: option.splits)

lemma handleK8sError_status:
  "StatusCode (handleK8sError err project) \<in> {StatusNotFound, StatusForbidden, StatusInternalServerError}"
  by (simp add: handleK8sError_def writeJSONError_def)

lemma error_response_status:
  "StatusCode (if IsConflict err
               then writeJSONError StatusConflict ''resource was modified, please retry''
               else handleK8sError err project)
   \<in> {StatusConflict, StatusNotFound, StatusForbidden, StatusInternalServerError}"
  by (simp add: handleK8sError_def writeJSONError_def)

text \<open>Each handler, as a function of what the core returns.\<close>

lemma AddDestination_handler_cases:
  assumes "DecodedBody r = Some req"
    and "validateProjectName (URLParamProject r) = None"
    and "validateDestinationRequest req = None"
    and "AddDestination (RequestContext r) (URLParamProject r)
           \<lparr>Server = ReqServer req, Namespace = ReqNamespace req, Name = ReqName req\<rparr> s = (e, s')"
    and "\<not> writeFails l"
  shows "DestinationHandler_AddDestination now r (s, l) =
     (case e of
        Some err \<Rightarrow>
          (if IsConflict err
           then writeJSONError StatusConflict ''resource was modified, please retry''
           else handleK8sError err (URLParamProject r), s', l)
      | None \<Rightarrow>
          (\<lparr>StatusCode = StatusCreated,
            Body = DestinationBody
              \<lparr>Server = ReqServer req, Namespace = ReqNamespace req, Name = ReqName req\<rparr>\<rparr>,
           s',
           l\<lparr>written := written l @
               [\<lparr>Timestamp = now, Action = ''add'', EntryProject = URLParamProject r,
                 EntryServer = ReqServer req, EntryNamespace = ReqNamespace req,
                 EntryName = ReqName req, Description = ReqDescription req,
                 UserAgent = RequestUserAgent r, RemoteAddr = RequestRemoteAddr r\<rparr>]\<rparr>))"
  using assms
  by (cases e) (simp_all add: DestinationHandler_AddDestination_def Let_def Log_writes)

lemma RemoveDestination_handler_cases:
  assumes "DecodedBody r = Some req"
    and "validateProjectName (URLParamProject r) = None"
    and "validateDestinationRequest req = None"
    and "RemoveDestination (RequestContext r) (URLParamProject r)
           \<lparr>Server = ReqServer req, Namespace = ReqNamespace req, Name = ReqName req\<rparr> s = (e, s')"
    and "\<not> writeFails l"
  shows "DestinationHandler_RemoveDestination now r (s, l) =
     (case e of
        Some err \<Rightarrow>
          (if IsConflict err
           then writeJSONError StatusConflict ''resource was modified, please retry''
           else handleK8sError err (URLParamProject r), s', l)
      | None \<Rightarrow>
          (\<lparr>StatusCode = StatusNoContent, Body = NoBody\<rparr>,
           s',
           l\<lparr>written := written l @
               [\<lparr>Timestamp = now, Action = ''remove'', EntryProject = URLParamProject r,
                 EntryServer = ReqServer req, EntryNamespace = ReqNamespace req,
                 EntryName = ReqName req, Description = ReqDescription req,
                 UserAgent = RequestUserAgent r, RemoteAddr = RequestRemoteAddr r\<rparr>]\<rparr>))"
  using assms
  by (cases e) (simp_all add: DestinationHandler_RemoveDestination_def Let_def Log_writes)

lemma AddDestination_byBody_cases:
  assumes "DecodedBody r = Some req"
    and "validateDestinationRequest_byBody req = None"
    and "AddDestination (RequestContext r) (ReqProject req)
           \<lparr>Server = ReqServer req, Namespace = ReqNamespace req, Name = ReqName req\<rparr> s = (e, s')"
    and "\<not> writeFails l"
  shows "DestinationHandler_AddDestination_byBody now r (s, l) =
     (case e of
        Some err \<Rightarrow>
          (if IsConflict err
           then writeJSONError StatusConflict ''resource was modified, please retry''
           else handleK8sError err (ReqProject req), s', l)
      | None \<Rightarrow>
          (\<lparr>StatusCode = StatusCreated,
            Body = DestinationBody
              \<lparr>Server = ReqServer req, Namespace = ReqNamespace req, Name = ReqName req\<rparr>\<rparr>,
           s',
           l\<lparr>written := written l @
               [\<lparr>Timestamp = now, Action = ''add'', EntryProject = ReqProject req,
                 EntryServer = ReqServer req, EntryNamespace = ReqNamespace req,
                 EntryName = ReqName req, Description = ReqDescription req,
                 UserAgent = RequestUserAgent r, RemoteAddr = RequestRemoteAddr r\<rparr>]\<rparr>))"
  using assms
  by (cases e) (simp_all add: DestinationHandler_AddDestination_byBody_def Let_def Log_writes)

lemma RemoveDestination_byBody_cases:
  assumes "DecodedBody r = Some req"
    and "validateDestinationRequest_byBody req = None"
    and "RemoveDestination (RequestContext r) (ReqProject req)
           \<lparr>Server = ReqServer req, Namespace = ReqNamespace req, Name = ReqName req\<rparr> s = (e, s')"
    and "\<not> writeFails l"
  shows "DestinationHandler_RemoveDestination_byBody now r (s, l) =
     (case e of
        Some err \<Rightarrow>
          (if IsConflict err
           then writeJSONError StatusConflict ''resource was modified, please retry''
           else handleK8sError err (ReqProject req), s', l)
      | None \<Rightarrow>
          (\<lparr>StatusCode = StatusNoContent, Body = NoBody\<rparr>,
           s',
           l\<lparr>written := written l @
               [\<lparr>Timestamp = now, Action = ''remove'', EntryProject = ReqProject req,
                 EntryServer = ReqServer req, EntryNamespace = ReqNamespace req,
                 EntryName = ReqName req, Description = ReqDescription req,
                 UserAgent = RequestUserAgent r, RemoteAddr = RequestRemoteAddr r\<rparr>]\<rparr>))"
  using assms
  by (cases e) (simp_all add: DestinationHandler_RemoveDestination_byBody_def Let_def Log_writes)

lemma AddDestination_handler_rejects:
  assumes "DecodedBody r = None \<or> validateProjectName (URLParamProject r) \<noteq> None
      \<or> (\<exists>req. DecodedBody r = Some req \<and> validateDestinationRequest req \<noteq> None)"
  shows "snd (DestinationHandler_AddDestination now r (s, l)) = (s, l)
       \<and> StatusCode (fst (DestinationHandler_AddDestination now r (s, l))) = StatusBadRequest"
  using assms
  by (auto simp: DestinationHandler_AddDestination_def Let_def writeJSONError_def
      dest: validateProjectName_status validateDestinationRequest_status split: option.splits)

lemma RemoveDestination_handler_rejects:
  assumes "DecodedBody r = None \<or> validateProjectName (URLParamProject r) \<noteq> None
      \<or> (\<exists>req. DecodedBody r = Some req \<and> validateDestinationRequest req \<noteq> None)"
  shows "snd (DestinationHandler_RemoveDestination now r (s, l)) = (s, l)
       \<and> StatusCode (fst (DestinationHandler_RemoveDestination now r (s, l))) = StatusBadRequest"
  using assms
  by (auto simp: DestinationHandler_RemoveDestination_def Let_def writeJSONError_def
      dest: validateProjectName_status validateDestinationRequest_status split: option.splits)

lemma AddDestination_byBody_rejects:
  assumes "DecodedBody r = None
      \<or> (\<exists>req. DecodedBody r = Some req \<and> validateDestinationRequest_byBody req \<noteq> None)"
  shows "snd (DestinationHandler_AddDestination_byBody now r (s, l)) = (s, l)
       \<and> StatusCode (fst (DestinationHandler_AddDestination_byBody now r (s, l))) = StatusBadRequest"
  using assms
  by (auto simp: DestinationHandler_AddDestination_byBody_def Let_def writeJSONError_def
      dest: validateDestinationRequest_byBody_status split: option.splits)

lemma RemoveDestination_byBody_rejects:
  assumes "DecodedBody r = None
      \<or> (\<exists>req. DecodedBody r = Some req \<and> validateDestinationRequest_byBody req \<noteq> None)"
  shows "snd (DestinationHandler_RemoveDestination_byBody now r (s, l)) = (s, l)
       \<and> StatusCode (fst (DestinationHandler_RemoveDestination_byBody now r (s, l))) = StatusBadRequest"
  using assms
  by (auto simp: DestinationHandler_RemoveDestination_byBody_def Let_def writeJSONError_def
      dest: validateDestinationRequest_byBody_status split: option.splits)

lemma AddDestination_handler_written:
  assumes "\<not> writeFails l" and "DecodedBody r = Some req"
  shows "written (snd (snd (DestinationHandler_AddDestination now r (s, l)))) =
     (if validateProjectName (URLParamProject r) = None \<and> validateDestinationRequest req = None
         \<and> fst (AddDestination (RequestContext r) (URLParamProject r)
                  \<lparr>Server = ReqServer req, Namespace = ReqNamespace req, Name = ReqName req\<rparr> s) = None
      then written l @
             [\<lparr>Timestamp = now, Action = ''add'', EntryProject = URLParamProject r,
               EntryServer = ReqServer req, EntryNamespace = ReqNamespace req,
               EntryName = ReqName req, Description = ReqDescription req,
               UserAgent = RequestUserAgent r, RemoteAddr = RequestRemoteAddr r\<rparr>]
      else written l)"
proof (cases "validateProjectName (URLParamProject r) = None \<and> validateDestinationRequest req = None")
  case False
  then have "snd (DestinationHandler_AddDestination now r (s, l)) = (s, l)"
    using assms(2) AddDestination_handler_rejects [of r now s l] by blast
  with False show ?thesis by auto
next
  case True
  obtain e s' where call: "AddDestination (RequestContext r) (URLParamProject r)
           \<lparr>Server = ReqServer req, Namespace = ReqNamespace req, Name = ReqName req\<rparr> s = (e, s')"
    by (cases "AddDestination (RequestContext r) (URLParamProject r)
           \<lparr>Server = ReqServer req, Namespace = ReqNamespace req, Name = ReqName req\<rparr> s") simp
  from True have v1: "validateProjectName (URLParamProject r) = None"
    and v2: "validateDestinationRequest req = None" by simp_all
  show ?thesis
    unfolding AddDestination_handler_cases [OF assms(2) v1 v2 call assms(1)]
    using True by (cases e) (simp_all add: call)
qed

lemma RemoveDestination_handler_written:
  assumes "\<not> writeFails l" and "DecodedBody r = Some req"
  shows "written (snd (snd (DestinationHandler_RemoveDestination now r (s, l)))) =
     (if validateProjectName (URLParamProject r) = None \<and> validateDestinationRequest req = None
         \<and> fst (RemoveDestination (RequestContext r) (URLParamProject r)
                  \<lparr>Server = ReqServer req, Namespace = ReqNamespace req, Name = ReqName req\<rparr> s) = None
      then written l @
             [\<lparr>Timestamp = now, Action = ''remove'', EntryProject = URLParamProject r,
               EntryServer = ReqServer req, EntryNamespace = ReqNamespace req,
               EntryName = ReqName req, Description = ReqDescription req,
               UserAgent = RequestUserAgent r, RemoteAddr = RequestRemoteAddr r\<rparr>]
      else written l)"
proof (cases "validateProjectName (URLParamProject r) = None \<and> validateDestinationRequest req = None")
  case False
  then have "snd (DestinationHandler_RemoveDestination now r (s, l)) = (s, l)"
    using assms(2) RemoveDestination_handler_rejects [of r now s l] by blast
  with False show ?thesis by auto
next
  case True
  obtain e s' where call: "RemoveDestination (RequestContext r) (URLParamProject r)
           \<lparr>Server = ReqServer req, Namespace = ReqNamespace req, Name = ReqName req\<rparr> s = (e, s')"
    by (cases "RemoveDestination (RequestContext r) (URLParamProject r)
           \<lparr>Server = ReqServer req, Namespace = ReqNamespace req, Name = ReqName req\<rparr> s") simp
  from True have v1: "validateProjectName (URLParamProject r) = None"
    and v2: "validateDestinationRequest req = None" by simp_all
  show ?thesis
    unfolding RemoveDestination_handler_cases [OF assms(2) v1 v2 call assms(1)]
    using True by (cases e) (simp_all add: call)
qed

lemma AddDestination_byBody_written:
  assumes "\<not> writeFails l" and "DecodedBody r = Some req"
  shows "written (snd (snd (DestinationHandler_AddDestination_byBody now r (s, l)))) =
     (if validateDestinationRequest_byBody req = None
         \<and> fst (AddDestination (RequestContext r) (ReqProject req)
                  \<lparr>Server = ReqServer req, Namespace = ReqNamespace req, Name = ReqName req\<rparr> s) = None
      then written l @
             [\<lparr>Timestamp = now, Action = ''add'', EntryProject = ReqProject req,
               EntryServer = ReqServer req, EntryNamespace = ReqNamespace req,
               EntryName = ReqName req, Description = ReqDescription req,
               UserAgent = RequestUserAgent r, RemoteAddr = RequestRemoteAddr r\<rparr>]
      else written l)"
proof (cases "validateDestinationRequest_byBody req = None")
  case False
  then have "snd (DestinationHandler_AddDestination_byBody now r (s, l)) = (s, l)"
    using assms(2) AddDestination_byBody_rejects [of r now s l] by blast
  with False show ?thesis by auto
next
  case True
  obtain e s' where call: "AddDestination (RequestContext r) (ReqProject req)
           \<lparr>Server = ReqServer req, Namespace = ReqNamespace req, Name = ReqName req\<rparr> s = (e, s')"
    by (cases "AddDestination (RequestContext r) (ReqProject req)
           \<lparr>Server = ReqServer req, Namespace = ReqNamespace req, Name = ReqName req\<rparr> s") simp
  show ?thesis
    unfolding AddDestination_byBody_cases [OF assms(2) True call assms(1)]
    using True by (cases e) (simp_all add: call)
qed

lemma RemoveDestination_byBody_written:
  assumes "\<not> writeFails l" and "DecodedBody r = Some req"
  shows "written (snd (snd (DestinationHandler_RemoveDestination_byBody now r (s, l)))) =
     (if validateDestinationRequest_byBody req = None
         \<and> fst (RemoveDestination (RequestContext r) (ReqProject req)
                  \<lparr>Server = ReqServer req, Namespace = ReqNamespace req, Name = ReqName req\<rparr> s) = None
      then written l @
             [\<lparr>Timestamp = now, Action = ''remove'', EntryProject = ReqProject req,
               EntryServer = ReqServer req, EntryNamespace = ReqNamespace req,
               EntryName = ReqName req, Description = ReqDescription req,
               UserAgent = RequestUserAgent r, RemoteAddr = RequestRemoteAddr r\<rparr>]
      else written l)"
proof (cases "validateDestinationRequest_byBody req = None")
  case False
  then have "snd (DestinationHandler_RemoveDestination_byBody now r (s, l)) = (s, l)"
    using assms(2) RemoveDestination_byBody_rejects [of r now s l] by blast
  with False show ?thesis by auto
next
  case True
  obtain e s' where call: "RemoveDestination (RequestContext r) (ReqProject req)
           \<lparr>Server = ReqServer req, Namespace = ReqNamespace req, Name = ReqName req\<rparr> s = (e, s')"
    by (cases "RemoveDestination (RequestContext r) (ReqProject req)
           \<lparr>Server = ReqServer req, Namespace = ReqNamespace req, Name = ReqName req\<rparr> s") simp
  show ?thesis
    unfolding RemoveDestination_byBody_cases [OF assms(2) True call assms(1)]
    using True by (cases e) (simp_all add: call)
qed

lemma AddDestination_handler_noop:
  assumes "\<not> writeFails l" and "DecodedBody r = Some req"
    and "validateProjectName (URLParamProject r) = None"
    and "validateDestinationRequest req = None"
    and "GetDestinations (RequestContext r) (URLParamProject r) s = Inr (ds, rv)"
    and "\<exists>existing \<in> set (elems ds).
           destinationsEqual existing
             \<lparr>Server = ReqServer req, Namespace = ReqNamespace req, Name = ReqName req\<rparr>"
  shows "DestinationHandler_AddDestination now r (s, l) =
     (\<lparr>StatusCode = StatusCreated,
       Body = DestinationBody
         \<lparr>Server = ReqServer req, Namespace = ReqNamespace req, Name = ReqName req\<rparr>\<rparr>,
      s,
      l\<lparr>written := written l @
          [\<lparr>Timestamp = now, Action = ''add'', EntryProject = URLParamProject r,
            EntryServer = ReqServer req, EntryNamespace = ReqNamespace req,
            EntryName = ReqName req, Description = ReqDescription req,
            UserAgent = RequestUserAgent r, RemoteAddr = RequestRemoteAddr r\<rparr>]\<rparr>)"
proof -
  have call: "AddDestination (RequestContext r) (URLParamProject r)
      \<lparr>Server = ReqServer req, Namespace = ReqNamespace req, Name = ReqName req\<rparr> s = (None, s)"
    using assms(5,6) by (simp add: AddDestination_def alreadyExists_iff)
  show ?thesis
    unfolding AddDestination_handler_cases [OF assms(2) assms(3) assms(4) call assms(1)]
    by simp
qed

lemma RemoveDestination_handler_noop:
  assumes "\<not> writeFails l" and "DecodedBody r = Some req"
    and "validateProjectName (URLParamProject r) = None"
    and "validateDestinationRequest req = None"
    and "GetDestinations (RequestContext r) (URLParamProject r) s = Inr (ds, rv)"
    and "\<forall>existing \<in> set (elems ds).
           \<not> destinationsEqual existing
             \<lparr>Server = ReqServer req, Namespace = ReqNamespace req, Name = ReqName req\<rparr>"
  shows "DestinationHandler_RemoveDestination now r (s, l) =
     (\<lparr>StatusCode = StatusNoContent, Body = NoBody\<rparr>,
      s,
      l\<lparr>written := written l @
          [\<lparr>Timestamp = now, Action = ''remove'', EntryProject = URLParamProject r,
            EntryServer = ReqServer req, EntryNamespace = ReqNamespace req,
            EntryName = ReqName req, Description = ReqDescription req,
            UserAgent = RequestUserAgent r, RemoteAddr = RequestRemoteAddr r\<rparr>]\<rparr>)"
proof -
  have "\<not> snd (removeLoop (elems ds)
      \<lparr>Server = ReqServer req, Namespace = ReqNamespace req, Name = ReqName req\<rparr> (NilSlice, False))"
    using assms(6) by (simp add: removeLoop_filter)
  then have call: "RemoveDestination (RequestContext r) (URLParamProject r)
      \<lparr>Server = ReqServer req, Namespace = ReqNamespace req, Name = ReqName req\<rparr> s = (None, s)"
    using assms(5) by (simp add: RemoveDestination_def case_prod_beta)
  show ?thesis
    unfolding RemoveDestination_handler_cases [OF assms(2) assms(3) assms(4) call assms(1)]
    by simp
qed

text \<open>
  Claim C8, as the code has it. The handlers write the audit entry whenever the core
  returns no error, and the core returns none for a committed write and for a call
  that changed nothing alike. With an audit file that can be written: a request whose
  body does not decode, or that fails validation, or for which the core returns an
  error, leaves the audit log as it was; a request that passes validation and for which
  the core returns no error appends exactly one entry, holding the time of logging, the
  action, the project, the destination fields and the caller's description. In
  particular an Add of a destination that is already there, and a Remove of one that
  is not, leave the store as it was and still append their entry. Both versions of
  the handlers do so.
\<close>

theorem audit_entry_after_nil_error:
  assumes "\<not> writeFails l"
  shows "(DecodedBody r = None \<longrightarrow>
            snd (DestinationHandler_AddDestination now r (s, l)) = (s, l)
            \<and> snd (DestinationHandler_RemoveDestination now r (s, l)) = (s, l)
            \<and> snd (DestinationHandler_AddDestination_byBody now r (s, l)) = (s, l)
            \<and> snd (DestinationHandler_RemoveDestination_byBody now r (s, l)) = (s, l))
       \<and> (\<forall>req. DecodedBody r = Some req \<longrightarrow>
            (let dest = \<lparr>Server = ReqServer req, Namespace = ReqNamespace req, Name = ReqName req\<rparr>;
                 entry = (\<lambda>action project.
                   \<lparr>Timestamp = now, Action = action, EntryProject = project,
                    EntryServer = ReqServer req, EntryNamespace = ReqNamespace req,
                    EntryName = ReqName req, Description = ReqDescription req,
                    UserAgent = RequestUserAgent r, RemoteAddr = RequestRemoteAddr r\<rparr>);
                 valid = (validateProjectName (URLParamProject r) = None
                          \<and> validateDestinationRequest req = None);
                 valid_byBody = (validateDestinationRequest_byBody req = None)
             in written (snd (snd (DestinationHandler_AddDestination now r (s, l)))) =
                  (if valid \<and> fst (AddDestination (RequestContext r) (URLParamProject r) dest s) = None
                   then written l @ [entry ''add'' (URLParamProject r)] else written l)
                \<and> written (snd (snd (DestinationHandler_RemoveDestination now r (s, l)))) =
                  (if valid \<and> fst (RemoveDestination (RequestContext r) (URLParamProject r) dest s) = None
                   then written l @ [entry ''remove'' (URLParamProject r)] else written l)
                \<and> written (snd (snd (DestinationHandler_AddDestination_byBody now r (s, l)))) =
                  (if valid_byBody \<and> fst (AddDestination (RequestContext r) (ReqProject req) dest s) = None
                   then written l @ [entry ''add'' (ReqProject req)] else written l)
                \<and> written (snd (snd (DestinationHandler_RemoveDestination_byBody now r (s, l)))) =
                  (if valid_byBody \<and> fst (RemoveDestination (RequestContext r) (ReqProject req) dest s) = None
                   then written l @ [entry ''remove'' (ReqProject req)] else written l)
                \<and> (\<forall>ds rv. valid
                      \<and> GetDestinations (RequestContext r) (URLParamProject r) s = Inr (ds, rv)
                      \<and> (\<exists>existing \<in> set (elems ds). destinationsEqual existing dest) \<longrightarrow>
                    DestinationHandler_AddDestination now r (s, l) =
                      (\<lparr>StatusCode = StatusCreated, Body = DestinationBody dest\<rparr>, s,
                       l\<lparr>written := written l @ [entry ''add'' (URLParamProject r)]\<rparr>))
                \<and> (\<forall>ds rv. valid
                      \<and> GetDestinations (RequestContext r) (URLParamProject r) s = Inr (ds, rv)
                      \<and> (\<forall>existing \<in> set (elems ds). \<not> destinationsEqual existing dest) \<longrightarrow>
                    DestinationHandler_RemoveDestination now r (s, l) =
                      (\<lparr>StatusCode = StatusNoContent, Body = NoBody\<rparr>, s,
                       l\<lparr>written := written l @ [entry ''remove'' (URLParamProject r)]\<rparr>))))"
proof (intro conjI impI allI)
  assume none: "DecodedBody r = None"
  show "snd (DestinationHandler_AddDestination now r (s, l)) = (s, l)"
    using none AddDestination_handler_rejects [of r now s l] by simp
  show "snd (DestinationHandler_RemoveDestination now r (s, l)) = (s, l)"
    using none RemoveDestination_handler_rejects [of r now s l] by simp
  show "snd (DestinationHandler_AddDestination_byBody now r (s, l)) = (s, l)"
    using none AddDestination_byBody_rejects [of r now s l] by simp
  show "snd (DestinationHandler_RemoveDestination_byBody now r (s, l)) = (s, l)"
    using none RemoveDestination_byBody_rejects [of r now s l] by simp
next
  fix req
  assume some: "DecodedBody r = Some req"
  note w = AddDestination_handler_written [OF assms some, of now s]
    RemoveDestination_handler_written [OF assms some, of now s]
    AddDestination_byBody_written [OF assms some, of now s]
    RemoveDestination_byBody_written [OF assms some, of now s]
  have a: "\<forall>ds rv. (validateProjectName (URLParamProject r) = None
                          \<and> validateDestinationRequest req = None)
      \<and> GetDestinations (RequestContext r) (URLParamProject r) s = Inr (ds, rv)
      \<and> (\<exists>existing \<in> set (elems ds). destinationsEqual existing
            \<lparr>Server = ReqServer req, Namespace = ReqNamespace req, Name = ReqName req\<rparr>) \<longrightarrow>
      DestinationHandler_AddDestination now r (s, l) =
        (\<lparr>StatusCode = StatusCreated, Body = DestinationBody
            \<lparr>Server = ReqServer req, Namespace = ReqNamespace req, Name = ReqName req\<rparr>\<rparr>, s,
         l\<lparr>written := written l @
           [\<lparr>Timestamp = now, Action = ''add'', EntryProject = URLParamProject r,
             EntryServer = ReqServer req, EntryNamespace = ReqNamespace req,
             EntryName = ReqName req, Description = ReqDescription req,
             UserAgent = RequestUserAgent r, RemoteAddr = RequestRemoteAddr r\<rparr>]\<rparr>)"
    using AddDestination_handler_noop [OF assms some] by blast
  have b: "\<forall>ds rv. (validateProjectName (URLParamProject r) = None
                          \<and> validateDestinationRequest req = None)
      \<and> GetDestinations (RequestContext r) (URLParamProject r) s = Inr (ds, rv)
      \<and> (\<forall>existing \<in> set (elems ds). \<not> destinationsEqual existing
            \<lparr>Server = ReqServer req, Namespace = ReqNamespace req, Name = ReqName req\<rparr>) \<longrightarrow>
      DestinationHandler_RemoveDestination now r (s, l) =
        (\<lparr>StatusCode = StatusNoContent, Body = NoBody\<rparr>, s,
         l\<lparr>written := written l @
           [\<lparr>Timestamp = now, Action = ''remove'', EntryProject = URLParamProject r,
             EntryServer = ReqServer req, EntryNamespace = ReqNamespace req,
             EntryName = ReqName req, Description = ReqDescription req,
             UserAgent = RequestUserAgent r, RemoteAddr = RequestRemoteAddr r\<rparr>]\<rparr>)"
    using RemoveDestination_handler_noop [OF assms some] by blast
  show "let dest = \<lparr>Server = ReqServer req, Namespace = ReqNamespace req, Name = ReqName req\<rparr>;
                 entry = (\<lambda>action project.
                   \<lparr>Timestamp = now, Action = action, EntryProject = project,
                    EntryServer = ReqServer req, EntryNamespace = ReqNamespace req,
                    EntryName = ReqName req, Description = ReqDescription req,
                    UserAgent = RequestUserAgent r, RemoteAddr = RequestRemoteAddr r\<rparr>);
                 valid = (validateProjectName (URLParamProject r) = None
                          \<and> validateDestinationRequest req = None);
                 valid_byBody = (validateDestinationRequest_byBody req = None)
             in written (snd (snd (DestinationHandler_AddDestination now r (s, l)))) =
                  (if valid \<and> fst (AddDestination (RequestContext r) (URLParamProject r) dest s) = None
                   then written l @ [entry ''add'' (URLParamProject r)] else written l)
                \<and> written (snd (snd (DestinationHandler_RemoveDestination now r (s, l)))) =
                  (if valid \<and> fst (RemoveDestination (RequestContext r) (URLParamProject r) dest s) = None
                   then written l @ [entry ''remove'' (URLParamProject r)] else written l)
                \<and> written (snd (snd (DestinationHandler_AddDestination_byBody now r (s, l)))) =
                  (if valid_byBody \<and> fst (AddDestination (RequestContext r) (ReqProject req) dest s) = None
                   then written l @ [entry ''add'' (ReqProject req)] else written l)
                \<and> written (snd (snd (DestinationHandler_RemoveDestination_byBody now r (s, l)))) =
                  (if valid_byBody \<and> fst (RemoveDestination (RequestContext r) (ReqProject req) dest s) = None
                   then written l @ [entry ''remove'' (ReqProject req)] else written l)
                \<and> (\<forall>ds rv. valid
                      \<and> GetDestinations (RequestContext r) (URLParamProject r) s = Inr (ds, rv)
                      \<and> (\<exists>existing \<in> set (elems ds). destinationsEqual existing dest) \<longrightarrow>
                    DestinationHandler_AddDestination now r (s, l) =
                      (\<lparr>StatusCode = StatusCreated, Body = DestinationBody dest\<rparr>, s,
                       l\<lparr>written := written l @ [entry ''add'' (URLParamProject r)]\<rparr>))
                \<and> (\<forall>ds rv. valid
                      \<and> GetDestinations (RequestContext r) (URLParamProject r) s = Inr (ds, rv)
                      \<and> (\<forall>existing \<in> set (elems ds). \<not> destinationsEqual existing dest) \<longrightarrow>
                    DestinationHandler_RemoveDestination now r (s, l) =
                      (\<lparr>StatusCode = StatusNoContent, Body = NoBody\<rparr>, s,
                       l\<lparr>written := written l @ [entry ''remove'' (URLParamProject r)]\<rparr>))"
    unfolding Let_def conj_assoc using w a [unfolded conj_assoc] b [unfolded conj_assoc]
    by (intro conjI) assumption+
qed

lemma example_validateProjectName: "validateProjectName ''R'' = None"
  by (simp add: validateProjectName_def projectNameRegex_def projectNameChar_def)

theorem audit_entry_after_nil_error_witness:
  "\<not> writeFails exampleLogger
   \<and> written (snd (snd (DestinationHandler_AddDestination 1000 (exampleRequest ''b'' ''ns2'')
        (exampleCluster, exampleLogger)))) =
       [\<lparr>Timestamp = 1000, Action = ''add'', EntryProject = ''R'', EntryServer = ''b'',
         EntryNamespace = ''ns2'', EntryName = [], Description = ''ticket 42'',
         UserAgent = ''curl'', RemoteAddr = ''10.0.0.1''\<rparr>]
   \<and> written (snd (snd (DestinationHandler_AddDestination 1000
        ((exampleRequest ''b'' ''ns2'')\<lparr>RequestContext := CtxCanceled\<rparr>)
        (exampleCluster, exampleLogger)))) = []
   \<and> written (snd (snd (DestinationHandler_RemoveDestination 1000
        ((exampleRequest ''a'' ''ns1'')\<lparr>DecodedBody := None\<rparr>)
        (exampleCluster, exampleLogger)))) = []"
proof -
  let ?b = "\<lparr>Server = ''b'', Namespace = ''ns2'', Name = []\<rparr>"
  let ?req = "\<lparr>ReqProject = ''R'', ReqServer = ''b'', ReqNamespace = ''ns2'',
                ReqName = [], ReqDescription = ''ticket 42''\<rparr>"
  let ?r = "exampleRequest ''b'' ''ns2''"
  let ?rc = "(exampleRequest ''b'' ''ns2'')\<lparr>RequestContext := CtxCanceled\<rparr>"
  let ?rn = "(exampleRequest ''a'' ''ns1'')\<lparr>DecodedBody := None\<rparr>"
  have w: "\<not> writeFails exampleLogger"
    by (simp add: exampleLogger_def)
  have body: "DecodedBody ?r = Some ?req" "DecodedBody ?rc = Some ?req" "DecodedBody ?rn = None"
    by (simp_all add: exampleRequest_def)
  have valid: "validateProjectName (URLParamProject ?r) = None"
    "validateProjectName (URLParamProject ?rc) = None"
    "validateDestinationRequest ?req = None"
    by (simp_all add: exampleRequest_def example_validateProjectName validateDestinationRequest_def)
  have ok: "fst (AddDestination (RequestContext ?r) (URLParamProject ?r) ?b exampleCluster) = None"
    using example_Add_b by (simp add: exampleRequest_def)
  have canceled: "fst (AddDestination (RequestContext ?rc) (URLParamProject ?rc) ?b exampleCluster) \<noteq> None"
    by (simp add: exampleRequest_def AddDestination_def GetDestinations_def Get_def)
  have 1: "written (snd (snd (DestinationHandler_AddDestination 1000 ?r (exampleCluster, exampleLogger)))) =
       [\<lparr>Timestamp = 1000, Action = ''add'', EntryProject = ''R'', EntryServer = ''b'',
         EntryNamespace = ''ns2'', EntryName = [], Description = ''ticket 42'',
         UserAgent = ''curl'', RemoteAddr = ''10.0.0.1''\<rparr>]"
    using audit_entry_after_nil_error [OF w, of ?r 1000 exampleCluster] body(1) valid ok
    by (simp add: Let_def) (simp add: exampleRequest_def exampleLogger_def)
  have 2: "written (snd (snd (DestinationHandler_AddDestination 1000 ?rc (exampleCluster, exampleLogger)))) = []"
    using audit_entry_after_nil_error [OF w, of ?rc 1000 exampleCluster] body(2) valid canceled
    by (simp add: Let_def) (simp add: exampleLogger_def)
  have 3: "written (snd (snd (DestinationHandler_RemoveDestination 1000 ?rn (exampleCluster, exampleLogger)))) = []"
    using audit_entry_after_nil_error [OF w, of ?rn 1000 exampleCluster] body(3)
    by (simp add: exampleLogger_def)
  from w 1 2 3 show ?thesis by simp
qed

text \<open>
  The claim as the specification words it fails: an Add of the destination the
  example record already has, and a Remove of one it does not have, leave the store as
  it was, no patch sent, and each appends an audit entry.
\<close>

theorem audit_entry_noop_counterexample:
  "DestinationHandler_AddDestination 1000 (exampleRequest ''a'' ''ns1'') (exampleCluster, exampleLogger) =
     (\<lparr>StatusCode = 201,
       Body = DestinationBody \<lparr>Server = ''a'', Namespace = ''ns1'', Name = []\<rparr>\<rparr>,
      exampleCluster,
      \<lparr>written =
         [\<lparr>Timestamp = 1000, Action = ''add'', EntryProject = ''R'', EntryServer = ''a'',
           EntryNamespace = ''ns1'', EntryName = [], Description = ''ticket 42'',
           UserAgent = ''curl'', RemoteAddr = ''10.0.0.1''\<rparr>],
       writeFails = False\<rparr>)
   \<and> DestinationHandler_RemoveDestination 1000 (exampleRequest ''z'' ''zz'') (exampleCluster, exampleLogger) =
     (\<lparr>StatusCode = 204, Body = NoBody\<rparr>,
      exampleCluster,
      \<lparr>written =
         [\<lparr>Timestamp = 1000, Action = ''remove'', EntryProject = ''R'', EntryServer = ''z'',
           EntryNamespace = ''zz'', EntryName = [], Description = ''ticket 42'',
           UserAgent = ''curl'', RemoteAddr = ''10.0.0.1''\<rparr>],
       writeFails = False\<rparr>)
   \<and> patches exampleCluster = []"
proof -
  have add: "AddDestination CtxActive ''R'' \<lparr>Server = ''a'', Namespace = ''ns1'', Name = []\<rparr> exampleCluster =
      (None, exampleCluster)"
    using example_GetDestinations_R by (simp add: AddDestination_def destinationsEqual_def)
  have rem: "RemoveDestination CtxActive ''R'' \<lparr>Server = ''z'', Namespace = ''zz'', Name = []\<rparr> exampleCluster =
      (None, exampleCluster)"
    using example_GetDestinations_R by (simp add: RemoveDestination_def destinationsEqual_def)
  have 1: "DestinationHandler_AddDestination 1000 (exampleRequest ''a'' ''ns1'') (exampleCluster, exampleLogger) =
     (\<lparr>StatusCode = 201,
       Body = DestinationBody \<lparr>Server = ''a'', Namespace = ''ns1'', Name = []\<rparr>\<rparr>,
      exampleCluster,
      \<lparr>written =
         [\<lparr>Timestamp = 1000, Action = ''add'', EntryProject = ''R'', EntryServer = ''a'',
           EntryNamespace = ''ns1'', EntryName = [], Description = ''ticket 42'',
           UserAgent = ''curl'', RemoteAddr = ''10.0.0.1''\<rparr>],
       writeFails = False\<rparr>)"
    by (simp add: DestinationHandler_AddDestination_def exampleRequest_def
        example_validateProjectName validateDestinationRequest_def add Log_def exampleLogger_def)
  have 2: "DestinationHandler_RemoveDestination 1000 (exampleRequest ''z'' ''zz'') (exampleCluster, exampleLogger) =
     (\<lparr>StatusCode = 204, Body = NoBody\<rparr>,
      exampleCluster,
      \<lparr>written =
         [\<lparr>Timestamp = 1000, Action = ''remove'', EntryProject = ''R'', EntryServer = ''z'',
           EntryNamespace = ''zz'', EntryName = [], Description = ''ticket 42'',
           UserAgent = ''curl'', RemoteAddr = ''10.0.0.1''\<rparr>],
       writeFails = False\<rparr>)"
    by (simp add: DestinationHandler_RemoveDestination_def exampleRequest_def
        example_validateProjectName validateDestinationRequest_def rem Log_def exampleLogger_def)
  have 3: "patches exampleCluster = []"
    by (simp add: exampleCluster_def)
  from 1 2 3 show ?thesis by simp
qed

end
